theory Spec2Isabelle
  imports Main "HOL-Library.Sublist"
begin

section \<open>JavaScript values\<close>

text \<open>
  The records handled by the action come from JSON responses of the lineage service and
  from parsed YAML documents, so a field holds any JSON-like value or is missing. A missing
  property reads as \<open>Undefined\<close>. Numbers are the integers that JavaScript prints in plain
  decimal notation; fractions, \<open>NaN\<close> and exponent notation are outside the model.
  Strings are lists of 8-bit characters.
\<close>

datatype jsval =
    Undefined
  | Null
  | JBool bool
  | JNum int
  | JStr string
  | JArr "jsval list"
  | JObj "(string \<times> jsval) list"

text \<open>Truthiness, as used by \<open>!x\<close>, \<open>x || y\<close>, \<open>x ? a : b\<close> and \<open>filter(Boolean)\<close>.\<close>

fun truthy :: "jsval \<Rightarrow> bool" where
  "truthy Undefined = False"
| "truthy Null = False"
| "truthy (JBool b) = b"
| "truthy (JNum i) = (i \<noteq> 0)"
| "truthy (JStr s) = (s \<noteq> [])"
| "truthy (JArr vs) = True"
| "truthy (JObj kvs) = True"

text \<open>\<open>a || b\<close> on values.\<close>

definition jsOr :: "jsval \<Rightarrow> jsval \<Rightarrow> jsval" where
  "jsOr a b = (if truthy a then a else b)"

definition digitChar :: "nat \<Rightarrow> char" where
  "digitChar d = ''0123456789'' ! d"

fun decimal :: "nat \<Rightarrow> string" where
  "decimal n = (if n < 10 then [digitChar n] else decimal (n div 10) @ [digitChar (n mod 10)])"

declare decimal.simps [simp del]

definition numberToString :: "int \<Rightarrow> string" where
  "numberToString i = (if i < 0 then CHR ''-'' # decimal (nat (- i)) else decimal (nat i))"

text \<open>\<open>Array.prototype.join\<close> on strings.\<close>

fun join :: "string \<Rightarrow> string list \<Rightarrow> string" where
  "join sep [] = []"
| "join sep [x] = x"
| "join sep (x # y # ys) = x @ sep @ join sep (y # ys)"

text \<open>
  String conversion as performed by a template literal \<open>`${v}`\<close>: an array joins its
  elements with a comma (\<open>null\<close> and \<open>undefined\<close> elements print as nothing), a plain
  object prints as \<open>[object Object]\<close>.
\<close>

fun toString :: "jsval \<Rightarrow> string" where
  "toString Undefined = ''undefined''"
| "toString Null = ''null''"
| "toString (JBool b) = (if b then ''true'' else ''false'')"
| "toString (JNum i) = numberToString i"
| "toString (JStr s) = s"
| "toString (JArr vs) =
     join '','' (map (\<lambda>v. case v of Undefined \<Rightarrow> [] | Null \<Rightarrow> [] | _ \<Rightarrow> toString v) vs)"
| "toString (JObj kvs) = ''[object Object]''"

section \<open>String helpers\<close>

text \<open>\<open>toLowerCase\<close> on the ASCII letters; every other character is left as it is.\<close>

definition lowerChar :: "char \<Rightarrow> char" where
  "lowerChar c =
     (case map_of (zip ''ABCDEFGHIJKLMNOPQRSTUVWXYZ'' ''abcdefghijklmnopqrstuvwxyz'') c of
        Some d \<Rightarrow> d
      | None \<Rightarrow> c)"

definition toLowerCase :: "string \<Rightarrow> string" where
  "toLowerCase s = map lowerChar s"

text \<open>\<open>s.includes(t)\<close>: \<open>t\<close> occurs in \<open>s\<close> as a contiguous run of characters.\<close>

definition includesStr :: "string \<Rightarrow> string \<Rightarrow> bool" where
  "includesStr s t = sublist t s"

text \<open>\<open>s.endsWith(t)\<close>.\<close>

definition endsWith :: "string \<Rightarrow> string \<Rightarrow> bool" where
  "endsWith s t = suffix t s"

text \<open>\<open>s.replace(/[`"']/g, '')\<close>: every backtick, double quote and single quote is removed.\<close>

definition isQuote :: "char \<Rightarrow> bool" where
  "isQuote c = (c = CHR 0x60 \<or> c = CHR 0x22 \<or> c = CHR 0x27)"

definition stripQuotes :: "string \<Rightarrow> string" where
  "stripQuotes s = filter (\<lambda>c. \<not> isQuote c) s"

text \<open>\<open>s.trim()\<close>, for the ASCII white space characters (space, tab, LF, VT, FF, CR).\<close>

definition isSpace :: "char \<Rightarrow> bool" where
  "isSpace c = (c \<in> set [CHR 0x20, CHR 0x09, CHR 0x0A, CHR 0x0B, CHR 0x0C, CHR 0x0D])"

definition trim :: "string \<Rightarrow> string" where
  "trim s = rev (dropWhile isSpace (rev (dropWhile isSpace s)))"

text \<open>
  \<open>s.split(sep)\<close> for a separator of one character: the pieces between the separators,
  in order; a string without separator is its only piece.
\<close>

fun splitAcc :: "char \<Rightarrow> string \<Rightarrow> string \<Rightarrow> string list" where
  "splitAcc sep cur [] = [cur]"
| "splitAcc sep cur (c # cs) =
     (if c = sep then cur # splitAcc sep [] cs else splitAcc sep (cur @ [c]) cs)"

definition split :: "char \<Rightarrow> string \<Rightarrow> string list" where
  "split sep s = splitAcc sep [] s"

section \<open>Output options\<close>

text \<open>
  \<open>parseConfigurableKeys\<close>. The argument is \<open>None\<close> when the caller passes
  \<open>undefined\<close>, \<open>null\<close> or a value that is not a string.
\<close>

record output_options =
  showDirectColumnCount :: bool
  showIndirectColumnCount :: bool
  showDirectAssetCount :: bool
  showIndirectAssetCount :: bool
  showDirectColumnList :: bool
  showIndirectColumnList :: bool
  showDirectAssetList :: bool
  showIndirectAssetList :: bool
  showYmlColumnChanges :: bool

definition allOptions :: "bool \<Rightarrow> output_options" where
  "allOptions b =
     \<lparr> showDirectColumnCount = b, showIndirectColumnCount = b,
       showDirectAssetCount = b, showIndirectAssetCount = b,
       showDirectColumnList = b, showIndirectColumnList = b,
       showDirectAssetList = b, showIndirectAssetList = b,
       showYmlColumnChanges = b \<rparr>"

definition optionKeys :: "string \<Rightarrow> string list" where
  "optionKeys keysString = map (\<lambda>key. toLowerCase (trim key)) (split CHR '','' keysString)"

definition parseConfigurableKeys :: "string option \<Rightarrow> output_options" where
  "parseConfigurableKeys keysString =
     (case keysString of
        None \<Rightarrow> allOptions True
      | Some s \<Rightarrow>
          if s = [] then allOptions True
          else
            (let keys = optionKeys s in
             \<lparr> showDirectColumnCount = ''direct_column_count'' \<in> set keys,
               showIndirectColumnCount = ''indirect_column_count'' \<in> set keys,
               showDirectAssetCount = ''direct_asset_count'' \<in> set keys,
               showIndirectAssetCount = ''indirect_asset_count'' \<in> set keys,
               showDirectColumnList = ''direct_column_list'' \<in> set keys,
               showIndirectColumnList = ''indirect_column_list'' \<in> set keys,
               showDirectAssetList = ''direct_asset_list'' \<in> set keys,
               showIndirectAssetList = ''indirect_asset_list'' \<in> set keys,
               showYmlColumnChanges = ''yml_column_changes'' \<in> set keys \<rparr>))"

text \<open>The option keys the parser recognises.\<close>

definition recognizedKeys :: "string list" where
  "recognizedKeys =
     [''direct_column_count'', ''indirect_column_count'', ''direct_asset_count'',
      ''indirect_asset_count'', ''direct_column_list'', ''indirect_column_list'',
      ''direct_asset_list'', ''indirect_asset_list'', ''yml_column_changes'']"

section \<open>Reading the columns of a YAML model file\<close>

text \<open>
  Errors thrown by JavaScript are values: a function that may throw returns
  \<open>jsError + 'a\<close>, and \<open>try { ... } catch\<close> is a case distinction on the result.
\<close>

datatype jsError = TypeError | YAMLException

definition bindE :: "jsError + 'a \<Rightarrow> ('a \<Rightarrow> jsError + 'b) \<Rightarrow> jsError + 'b" where
  "bindE m f = (case m of Inl e \<Rightarrow> Inl e | Inr x \<Rightarrow> f x)"

text \<open>\<open>xs.map(f)\<close> with a callback that may throw: the first error ends the loop.\<close>

fun mapE :: "('a \<Rightarrow> jsError + 'b) \<Rightarrow> 'a list \<Rightarrow> jsError + 'b list" where
  "mapE f [] = Inr []"
| "mapE f (x # xs) = bindE (f x) (\<lambda>y. bindE (mapE f xs) (\<lambda>ys. Inr (y # ys)))"

text \<open>
  Property access \<open>v.k\<close>, for the property names the source reads (\<open>operation\<close>,
  \<open>metadata\<close>, \<open>columns\<close>, \<open>name\<close>, \<open>dataType\<close>, \<open>nullable\<close>, \<open>primaryKey\<close>): it
  throws on \<open>undefined\<close> and \<open>null\<close>, looks the key up in an object, and is \<open>undefined\<close>
  on a string, number, boolean or array, which have no property of these names.
\<close>

fun getProp :: "jsval \<Rightarrow> string \<Rightarrow> jsError + jsval" where
  "getProp Undefined k = Inl TypeError"
| "getProp Null k = Inl TypeError"
| "getProp (JObj kvs) k = Inr (case map_of kvs k of Some v \<Rightarrow> v | None \<Rightarrow> Undefined)"
| "getProp v k = Inr Undefined"

text \<open>
  \<open>v.map(f)\<close> on a value: only an array has a \<open>map\<close> method; on anything else the
  call throws a TypeError.
\<close>

fun arrayMap :: "jsval \<Rightarrow> (jsval \<Rightarrow> jsError + 'b) \<Rightarrow> jsError + 'b list" where
  "arrayMap (JArr vs) f = mapE f vs"
| "arrayMap v f = Inl TypeError"

text \<open>\<open>a && f(a)\<close>: the first falsy value, or the value of the right-hand side.\<close>

definition jsAnd :: "jsval \<Rightarrow> (jsval \<Rightarrow> jsError + jsval) \<Rightarrow> jsError + jsval" where
  "jsAnd a f = (if truthy a then f a else Inr a)"

record column =
  name :: jsval
  dataType :: jsval
  nullable :: jsval
  primaryKey :: jsval

text \<open>The callback of the Coalesce branch (\<open>operation.metadata.columns\<close>).\<close>

definition coalesceColumn :: "jsval \<Rightarrow> jsError + column" where
  "coalesceColumn col =
     bindE (getProp col ''name'') (\<lambda>n.
     bindE (getProp col ''dataType'') (\<lambda>d.
     bindE (getProp col ''nullable'') (\<lambda>nu.
     bindE (getProp col ''primaryKey'') (\<lambda>pk.
       Inr \<lparr> column.name = jsOr n (JStr []), dataType = jsOr d (JStr []),
             nullable = jsOr nu (JBool False), primaryKey = jsOr pk (JBool False) \<rparr>))))"

text \<open>
  The callback of the fallback branch (\<open>schema.columns\<close>); the records it builds have a
  \<open>name\<close> only, so the other properties read as \<open>undefined\<close>.
\<close>

definition fallbackColumn :: "jsval \<Rightarrow> jsError + column" where
  "fallbackColumn col =
     (case col of
        JStr s \<Rightarrow>
          Inr \<lparr> column.name = JStr s, dataType = Undefined, nullable = Undefined,
                primaryKey = Undefined \<rparr>
      | _ \<Rightarrow>
          bindE (getProp col ''name'') (\<lambda>n.
            Inr \<lparr> column.name = jsOr n col, dataType = Undefined, nullable = Undefined,
                  primaryKey = Undefined \<rparr>))"

text \<open>\<open>schema.operation && schema.operation.metadata && schema.operation.metadata.columns\<close>\<close>

definition coalesceColumnsOf :: "jsval \<Rightarrow> jsError + jsval" where
  "coalesceColumnsOf schema =
     bindE (getProp schema ''operation'') (\<lambda>operation.
       jsAnd operation (\<lambda>operation.
         bindE (getProp operation ''metadata'') (\<lambda>metadata.
           jsAnd metadata (\<lambda>metadata. getProp metadata ''columns''))))"

text \<open>
  The body of the \<open>try\<close> block of \<open>extractColumnsFromYML\<close>. The YAML parser
  \<open>yaml.load\<close> is a parameter: it returns the parsed document or throws.
\<close>

definition extractColumnsBody :: "(string \<Rightarrow> jsError + jsval) \<Rightarrow> string \<Rightarrow> jsError + column list" where
  "extractColumnsBody load content =
     bindE (load content) (\<lambda>schema.
       if \<not> truthy schema then Inr []
       else
         bindE (coalesceColumnsOf schema) (\<lambda>cols.
           if truthy cols then
             bindE (arrayMap cols coalesceColumn) (\<lambda>cs.
               Inr (filter (\<lambda>col. truthy (column.name col)) cs))
           else
             bindE (getProp schema ''columns'') (\<lambda>columns.
               if truthy columns then
                 bindE (arrayMap columns fallbackColumn) (\<lambda>cs.
                   Inr (filter (\<lambda>col. truthy (column.name col)) cs))
               else Inr [])))"

text \<open>The function with its \<open>catch\<close>: every error becomes the empty list.\<close>

definition extractColumnsFromYML ::
  "(string \<Rightarrow> jsError + jsval) \<Rightarrow> string \<Rightarrow> string \<Rightarrow> column list" where
  "extractColumnsFromYML load content filePath =
     (case extractColumnsBody load content of Inl e \<Rightarrow> [] | Inr cols \<Rightarrow> cols)"

text \<open>
  To state what the two branches return: a value is nullish when reading a property of it
  throws, and \<open>nameProp e\<close> is \<open>e.name\<close> where that does not throw.
\<close>

definition isNullish :: "jsval \<Rightarrow> bool" where
  "isNullish v = (v = Undefined \<or> v = Null)"

definition nameProp :: "jsval \<Rightarrow> jsval" where
  "nameProp e = (case getProp e ''name'' of Inr v \<Rightarrow> v | Inl err \<Rightarrow> Undefined)"

section \<open>Column delta of the changed YAML files\<close>

text \<open>
  What \<open>extractChangedColumns\<close> reads from its surroundings: the two commit ids (missing
  when neither the environment variable nor the pull request payload has one), the content
  of a file at a commit (\<open>None\<close> for \<open>null\<close>: the file is not there) and the YAML
  parser.
\<close>

record git_env =
  baseSha :: "string option"
  headSha :: "string option"
  getFileContent :: "string option \<Rightarrow> string \<Rightarrow> string option"
  yamlLoad :: "string \<Rightarrow> jsError + jsval"

record changed_column =
  column :: jsval
  file' :: string

record changed_columns =
  added :: "changed_column list"
  removed :: "changed_column list"
  modified :: "changed_column list"

fun isPrimitive :: "jsval \<Rightarrow> bool" where
  "isPrimitive (JArr vs) = False"
| "isPrimitive (JObj kvs) = False"
| "isPrimitive v = True"

text \<open>
  \<open>names.includes(v)\<close> where \<open>names\<close> and \<open>v\<close> come from two different calls of the
  YAML parser: primitive values are compared by value, objects and arrays by identity, and
  an object of one parse is never an object of the other.
\<close>

definition namesInclude :: "jsval list \<Rightarrow> jsval \<Rightarrow> bool" where
  "namesInclude names v = (isPrimitive v \<and> v \<in> set names)"

text \<open>A string option is truthy when it is a non-empty string.\<close>

definition present :: "string option \<Rightarrow> bool" where
  "present c = (case c of None \<Rightarrow> False | Some s \<Rightarrow> s \<noteq> [])"

text \<open>
  \<open>safeArray(content ? extractColumnsFromYML(content, file) : [])\<close>: the columns of a
  file content, none when the content is missing or empty.
\<close>

definition columnsOfContent :: "git_env \<Rightarrow> string option \<Rightarrow> string \<Rightarrow> column list" where
  "columnsOfContent env content f =
     (case content of
        None \<Rightarrow> []
      | Some c \<Rightarrow> if c = [] then [] else extractColumnsFromYML (yamlLoad env) c f)"

text \<open>
  \<open>baseSha ? await getFileContent(baseSha, file) : null\<close> and
  \<open>await getFileContent(headSha, file)\<close>.
\<close>

definition baseContentOf :: "git_env \<Rightarrow> string \<Rightarrow> string option" where
  "baseContentOf env f =
     (if present (baseSha env) then getFileContent env (baseSha env) f else None)"

definition headContentOf :: "git_env \<Rightarrow> string \<Rightarrow> string option" where
  "headContentOf env f = getFileContent env (headSha env) f"

text \<open>
  One iteration of the loop over the YAML files: \<open>None\<close> when the iteration ends at
  \<open>continue\<close>, otherwise the added and the removed columns of the file.
\<close>

definition fileColumnDelta :: "git_env \<Rightarrow> string \<Rightarrow> (column list \<times> column list) option" where
  "fileColumnDelta env f =
     (let baseContent = baseContentOf env f;
          headContent = headContentOf env f
      in if \<not> present headContent then None
         else
           (let baseCols = columnsOfContent env baseContent f;
                headCols = columnsOfContent env headContent f;
                baseColNames = map column.name baseCols;
                headColNames = map column.name headCols;
                addedCols = filter (\<lambda>col. \<not> namesInclude baseColNames (column.name col)) headCols;
                removedCols = filter (\<lambda>col. \<not> namesInclude headColNames (column.name col)) baseCols
            in Some (addedCols, removedCols)))"

fun extractLoop :: "git_env \<Rightarrow> changed_columns \<Rightarrow> string list \<Rightarrow> changed_columns" where
  "extractLoop env changedColumns [] = changedColumns"
| "extractLoop env changedColumns (f # fs) =
     (case fileColumnDelta env f of
        None \<Rightarrow> extractLoop env changedColumns fs
      | Some (addedCols, removedCols) \<Rightarrow>
          extractLoop env
            (changedColumns
               \<lparr> added := added changedColumns
                    @ map (\<lambda>col. \<lparr> column = column.name col, file' = f \<rparr>) addedCols,
                 removed := removed changedColumns
                    @ map (\<lambda>col. \<lparr> column = column.name col, file' = f \<rparr>) removedCols \<rparr>)
            fs)"

definition isYml :: "string \<Rightarrow> bool" where
  "isYml f = (f \<noteq> [] \<and> endsWith f ''.yml'')"

definition extractChangedColumns :: "git_env \<Rightarrow> string list \<Rightarrow> changed_columns" where
  "extractChangedColumns env changedFiles =
     extractLoop env \<lparr> added = [], removed = [], modified = [] \<rparr> (filter isYml changedFiles)"

text \<open>What one file contributes to \<open>added\<close> and to \<open>removed\<close>.\<close>

definition addedOf :: "git_env \<Rightarrow> string \<Rightarrow> changed_column list" where
  "addedOf env f =
     (case fileColumnDelta env f of
        None \<Rightarrow> []
      | Some (addedCols, removedCols) \<Rightarrow>
          map (\<lambda>col. \<lparr> column = column.name col, file' = f \<rparr>) addedCols)"

definition removedOf :: "git_env \<Rightarrow> string \<Rightarrow> changed_column list" where
  "removedOf env f =
     (case fileColumnDelta env f of
        None \<Rightarrow> []
      | Some (addedCols, removedCols) \<Rightarrow>
          map (\<lambda>col. \<lparr> column = column.name col, file' = f \<rparr>) removedCols)"

text \<open>
  The delta of a file as the specification words it: the file is skipped when the content
  after the change is absent; otherwise the added columns are the columns after the change
  whose name is not a name before it, the removed columns are the columns before the
  change whose name is not a name after it, and a file without content before the change
  has no columns before it.
\<close>

definition specColumnDelta :: "git_env \<Rightarrow> string \<Rightarrow> (column list \<times> column list) option" where
  "specColumnDelta env f =
     (case headContentOf env f of
        None \<Rightarrow> None
      | Some h \<Rightarrow>
          (let baseCols = (case baseContentOf env f of
                             None \<Rightarrow> []
                           | Some b \<Rightarrow> extractColumnsFromYML (yamlLoad env) b f);
               headCols = extractColumnsFromYML (yamlLoad env) h f
           in Some (filter (\<lambda>col. \<not> namesInclude (map column.name baseCols) (column.name col))
                      headCols,
                    filter (\<lambda>col. \<not> namesInclude (map column.name headCols) (column.name col))
                      baseCols)))"

section \<open>Column-level matching against the lineage fields\<close>

text \<open>
  A value on which the source calls a string method (\<open>toLowerCase\<close>) is a string or is
  missing: the name of a lineage field, the name and the connection type of a task.
  The changed columns and the changed model names are strings.
\<close>

record field =
  name :: "string option"
  id :: jsval
  data_type :: jsval

record tbl =
  name :: jsval
  id :: jsval
  redirect_id :: jsval
  entity :: jsval
  connection_id :: jsval
  asset_name :: jsval
  flow :: jsval
  depth :: jsval
  asset_group :: jsval
  fields' :: "field list"

record column_impact =
  table_name :: jsval
  column_name :: jsval
  column_id :: jsval
  data_type :: jsval
  table_id :: jsval
  redirect_id :: jsval
  entity :: jsval
  connection_id :: jsval
  asset_name :: jsval
  flow :: jsval
  depth :: jsval
  impact_type :: jsval
  asset_group :: jsval

definition optStr :: "string option \<Rightarrow> jsval" where
  "optStr s = (case s of None \<Rightarrow> Undefined | Some t \<Rightarrow> JStr t)"

text \<open>\<open>s || ""\<close> on a string that may be missing.\<close>

definition orEmpty :: "string option \<Rightarrow> string" where
  "orEmpty s = (case s of None \<Rightarrow> [] | Some t \<Rightarrow> t)"

text \<open>
  The callback of \<open>changedColumns.some\<close>: the three strategies, in the order of the
  source, on the name of the field and one changed column.
\<close>

definition columnMatches :: "string option \<Rightarrow> string \<Rightarrow> bool" where
  "columnMatches fname changedCol =
     (let fieldName = toLowerCase (orEmpty fname);
          changedColName = toLowerCase changedCol
      in if fieldName = changedColName then True
         else if includesStr fieldName changedColName \<or> includesStr changedColName fieldName then True
         else if stripQuotes fieldName = stripQuotes changedColName then True
         else False)"

definition isImpacted :: "string list \<Rightarrow> field \<Rightarrow> bool" where
  "isImpacted changedColumns fld = list_ex (columnMatches (field.name fld)) changedColumns"

text \<open>The record pushed for an impacted field of a table.\<close>

definition impactRecord :: "tbl \<Rightarrow> field \<Rightarrow> column_impact" where
  "impactRecord t fld =
     \<lparr> table_name = tbl.name t, column_name = optStr (field.name fld),
       column_id = field.id fld, data_type = field.data_type fld, table_id = tbl.id t,
       redirect_id = tbl.redirect_id t, entity = tbl.entity t,
       connection_id = tbl.connection_id t, asset_name = tbl.asset_name t,
       flow = tbl.flow t, depth = tbl.depth t, impact_type = JStr ''Column Referenced'',
       asset_group = tbl.asset_group t \<rparr>"

text \<open>
  The two nested \<open>forEach\<close> loops of \<open>getColumnLevelImpactAnalysis\<close> over the tables
  of the response; the request itself is outside the model.
\<close>

definition columnImpactsOf :: "tbl list \<Rightarrow> string list \<Rightarrow> column_impact list" where
  "columnImpactsOf tables changedColumns =
     concat (map (\<lambda>t. map (impactRecord t) (filter (isImpacted changedColumns) (fields' t))) tables)"

text \<open>
  The relation the specification words: after lower-casing and removing the quote
  characters on both sides, the names are equal or one contains the other.
\<close>

definition specRelevant :: "string option \<Rightarrow> string \<Rightarrow> bool" where
  "specRelevant fname changedCol =
     (let a = stripQuotes (toLowerCase (orEmpty fname));
          b = stripQuotes (toLowerCase changedCol)
      in a = b \<or> includesStr a b \<or> includesStr b a)"

section \<open>Matching tasks to the changed models\<close>

record task =
  name :: "string option"
  connection_type :: "string option"
  task_id :: jsval
  asset_id :: jsval
  connection_id :: jsval

record matched_task = task +
  entity :: jsval
  filePath :: "string option"

text \<open>
  The loop over the changed YAML files that fills \<open>changedModels\<close> and
  \<open>modelNameToFileMap\<close>. Reading the file (from the commit, else from the file system)
  and extracting its model name is the parameter \<open>modelNameOf\<close>; a file whose name cannot
  be read, or is empty, adds nothing.
\<close>

fun collectModels ::
  "(string \<Rightarrow> string option) \<Rightarrow> string list \<times> (string \<rightharpoonup> string) \<Rightarrow> string list
     \<Rightarrow> string list \<times> (string \<rightharpoonup> string)" where
  "collectModels modelNameOf (changedModels, modelNameToFileMap) [] =
     (changedModels, modelNameToFileMap)"
| "collectModels modelNameOf (changedModels, modelNameToFileMap) (f # fs) =
     (case modelNameOf f of
        None \<Rightarrow> collectModels modelNameOf (changedModels, modelNameToFileMap) fs
      | Some modelName \<Rightarrow>
          if modelName = [] then collectModels modelNameOf (changedModels, modelNameToFileMap) fs
          else collectModels modelNameOf
                 (changedModels @ [modelName], modelNameToFileMap(modelName \<mapsto> f)) fs)"

text \<open>The tasks of the Coalesce connector; a \<open>null\<close> entry of the list is \<open>None\<close>.\<close>

definition isCoalesce :: "task option \<Rightarrow> bool" where
  "isCoalesce t =
     (let connType = toLowerCase (case t of None \<Rightarrow> [] | Some t' \<Rightarrow> orEmpty (connection_type t'))
      in connType = ''coalesce_pipeline'' \<or> includesStr connType ''coalesce_pipeline'')"

definition coalesceTasks :: "task option list \<Rightarrow> task list" where
  "coalesceTasks tasks =
     concat (map (\<lambda>t. case t of None \<Rightarrow> [] | Some t' \<Rightarrow> [t']) (filter isCoalesce tasks))"

definition changedModelsOf :: "(string \<Rightarrow> string option) \<Rightarrow> string list \<Rightarrow> string list" where
  "changedModelsOf modelNameOf changedFiles =
     fst (collectModels modelNameOf ([], Map.empty) (filter isYml changedFiles))"

definition nameMatches :: "string list \<Rightarrow> task \<Rightarrow> bool" where
  "nameMatches changedModels t =
     (let taskName = toLowerCase (orEmpty (task.name t))
      in list_ex (\<lambda>model. toLowerCase model = taskName) changedModels)"

definition toMatched :: "string list \<Rightarrow> (string \<rightharpoonup> string) \<Rightarrow> task \<Rightarrow> matched_task" where
  "toMatched changedModels modelNameToFileMap t =
     (let matchingModel =
            find (\<lambda>model. toLowerCase model = toLowerCase (orEmpty (task.name t))) changedModels
      in \<lparr> task.name = task.name t, connection_type = connection_type t,
           task_id = task_id t, asset_id = asset_id t,
           task.connection_id = task.connection_id t,
           entity = jsOr (task_id t) (JStr []),
           filePath = (case matchingModel of
                         None \<Rightarrow> None
                       | Some m \<Rightarrow> if m = [] then None else modelNameToFileMap m) \<rparr>)"

definition matchedTasks ::
  "string list \<Rightarrow> (string \<rightharpoonup> string) \<Rightarrow> task list \<Rightarrow> matched_task list" where
  "matchedTasks changedModels modelNameToFileMap cts =
     filter (\<lambda>t. present (filePath t))
       (map (toMatched changedModels modelNameToFileMap)
          (filter (nameMatches changedModels) cts))"

text \<open>The matched tasks of a run, from the changed files and the task list.\<close>

definition matchedTasksOfRun ::
  "(string \<Rightarrow> string option) \<Rightarrow> string list \<Rightarrow> task option list \<Rightarrow> matched_task list" where
  "matchedTasksOfRun modelNameOf changedFiles tasks =
     (case collectModels modelNameOf ([], Map.empty) (filter isYml changedFiles) of
        (changedModels, modelNameToFileMap) \<Rightarrow>
          matchedTasks changedModels modelNameToFileMap (coalesceTasks tasks))"

section \<open>Impact records, identity keys and deduplication\<close>

record impact =
  name :: jsval
  connection_id :: jsval
  asset_name :: jsval
  asset_group :: jsval
  redirect_id :: jsval
  is_transform :: jsval

text \<open>
  The impacts of a file are lists of records: every list is filled through
  \<open>filter(Boolean)\<close>, so it holds no \<open>null\<close> and \<open>item?.name\<close> is \<open>item.name\<close>.
\<close>

record file_impact =
  direct :: "impact list"
  indirect :: "impact list"
  taskName :: jsval

record column_impact_set =
  direct :: "column_impact list"
  indirect :: "column_impact list"
  taskName :: jsval
  changedColumns :: "string list"

definition uniqueKey :: "impact \<Rightarrow> string" where
  "uniqueKey item =
     toString (impact.name item) @ ''-'' @ toString (impact.connection_id item) @ ''-''
       @ toString (impact.asset_name item)"

definition columnUniqueKey :: "column_impact \<Rightarrow> string" where
  "columnUniqueKey item =
     toString (table_name item) @ ''-'' @ toString (column_name item) @ ''-''
       @ toString (column_impact.connection_id item)"

text \<open>
  The filter of \<open>dedup\<close> and of \<open>columnDedup\<close>, with the set \<open>seen\<close> that its callback
  updates: an item is kept when its key is new, and its key is then seen.
\<close>

fun dedupLoop :: "('a \<Rightarrow> string) \<Rightarrow> string set \<Rightarrow> 'a list \<Rightarrow> 'a list" where
  "dedupLoop key seen [] = []"
| "dedupLoop key seen (item # arr) =
     (if key item \<in> seen then dedupLoop key seen arr
      else item # dedupLoop key (insert (key item) seen) arr)"

definition dedup :: "impact list \<Rightarrow> impact list" where
  "dedup arr = dedupLoop uniqueKey {} arr"

definition columnDedup :: "column_impact list \<Rightarrow> column_impact list" where
  "columnDedup arr = dedupLoop columnUniqueKey {} arr"

text \<open>
  \<open>fileImpacts\<close> and \<open>columnImpacts\<close> are objects keyed by file path: association lists
  in the order of insertion. Each \<open>Object.keys(...).forEach\<close> pass updates every entry.
\<close>

definition removeDirectFromIndirect :: "file_impact \<Rightarrow> file_impact" where
  "removeDirectFromIndirect impacts =
     (let directKeys = set (map uniqueKey (file_impact.direct impacts))
      in impacts \<lparr> file_impact.indirect :=
           filter (\<lambda>item. uniqueKey item \<notin> directKeys) (file_impact.indirect impacts) \<rparr>)"

definition dedupFile :: "file_impact \<Rightarrow> file_impact" where
  "dedupFile impacts =
     impacts \<lparr> file_impact.direct := dedup (file_impact.direct impacts),
               file_impact.indirect := dedup (file_impact.indirect impacts) \<rparr>"

definition reconcileFileImpacts :: "(string \<times> file_impact) list \<Rightarrow> (string \<times> file_impact) list" where
  "reconcileFileImpacts fileImpacts =
     map (\<lambda>(path, impacts). (path, dedupFile impacts))
       (map (\<lambda>(path, impacts). (path, removeDirectFromIndirect impacts)) fileImpacts)"

definition removeDirectFromIndirectColumns :: "column_impact_set \<Rightarrow> column_impact_set" where
  "removeDirectFromIndirectColumns impacts =
     (let directKeys = set (map columnUniqueKey (column_impact_set.direct impacts))
      in impacts \<lparr> column_impact_set.indirect :=
           filter (\<lambda>item. columnUniqueKey item \<notin> directKeys) (column_impact_set.indirect impacts) \<rparr>)"

definition dedupColumns :: "column_impact_set \<Rightarrow> column_impact_set" where
  "dedupColumns impacts =
     impacts \<lparr> column_impact_set.direct := columnDedup (column_impact_set.direct impacts),
               column_impact_set.indirect := columnDedup (column_impact_set.indirect impacts) \<rparr>"

definition reconcileColumnImpacts ::
  "(string \<times> column_impact_set) list \<Rightarrow> (string \<times> column_impact_set) list" where
  "reconcileColumnImpacts columnImpacts =
     map (\<lambda>(path, impacts). (path, dedupColumns impacts))
       (map (\<lambda>(path, impacts). (path, removeDirectFromIndirectColumns impacts)) columnImpacts)"

section \<open>URL resolver\<close>

text \<open>
  The \<open>URL\<close> class of the platform is a parameter: \<open>parseUrl\<close> is \<open>new URL(s)\<close>
  (\<open>None\<close> when it throws), \<open>setPathname\<close> the assignment to \<open>url.pathname\<close> and
  \<open>urlToString\<close> is \<open>url.toString()\<close>.
\<close>

record 'u url_api =
  parseUrl :: "string \<Rightarrow> 'u option"
  setPathname :: "'u \<Rightarrow> string \<Rightarrow> 'u"
  urlToString :: "'u \<Rightarrow> string"

definition constructItemUrl :: "'u url_api \<Rightarrow> impact option \<Rightarrow> string \<Rightarrow> string" where
  "constructItemUrl api item baseUrl =
     (case item of
        None \<Rightarrow> ''#''
      | Some item \<Rightarrow>
          if baseUrl = [] then ''#''
          else
            (case parseUrl api baseUrl of
               None \<Rightarrow> ''#''
             | Some url \<Rightarrow>
                 if \<not> truthy (impact.connection_id item) \<or> \<not> truthy (impact.redirect_id item)
                 then ''#''
                 else if impact.asset_group item = JStr ''pipeline'' then
                   (if truthy (is_transform item)
                    then urlToString api (setPathname api url
                           (''/observe/pipeline/transformation/''
                              @ toString (impact.redirect_id item) @ ''/run''))
                    else urlToString api (setPathname api url
                           (''/observe/pipeline/task/''
                              @ toString (impact.redirect_id item) @ ''/run'')))
                 else if impact.asset_group item = JStr ''report'' then
                   urlToString api (setPathname api url
                     (''/observe/report/worksheet/''
                        @ toString (impact.redirect_id item) @ ''/overview''))
                 else if impact.asset_group item = JStr ''data'' then
                   urlToString api (setPathname api url
                     (''/observe/data/'' @ toString (impact.redirect_id item) @ ''/measures''))
                 else ''#''))"

text \<open>
  The resolver for column records. The records built by \<open>getColumnLevelImpactAnalysis\<close>
  have no \<open>is_transform\<close> property, so \<open>columnItem.is_transform\<close> is \<open>undefined\<close>.
\<close>

definition constructColumnUrl :: "'u url_api \<Rightarrow> column_impact option \<Rightarrow> string \<Rightarrow> string" where
  "constructColumnUrl api columnItem baseUrl =
     (case columnItem of
        None \<Rightarrow> ''#''
      | Some columnItem \<Rightarrow>
          if baseUrl = [] then ''#''
          else
            (case parseUrl api baseUrl of
               None \<Rightarrow> ''#''
             | Some url \<Rightarrow>
                 if column_impact.asset_group columnItem = JStr ''pipeline'' then
                   (if truthy Undefined
                    then urlToString api (setPathname api url
                           (''/observe/pipeline/transformation/''
                              @ toString (column_impact.redirect_id columnItem) @ ''/run''))
                    else urlToString api (setPathname api url
                           (''/observe/pipeline/task/''
                              @ toString (column_impact.redirect_id columnItem) @ ''/run'')))
                 else if column_impact.asset_group columnItem = JStr ''data'' then
                   urlToString api (setPathname api url
                     (''/observe/data/''
                        @ toString (column_impact.redirect_id columnItem) @ ''/measures''))
                 else if \<not> truthy (column_impact.connection_id columnItem)
                         \<or> \<not> truthy (column_impact.redirect_id columnItem)
                 then ''#''
                 else if truthy (column_impact.redirect_id columnItem) then
                   urlToString api (setPathname api url
                     (''/observe/pipeline/task/''
                        @ toString (column_impact.redirect_id columnItem) @ ''/run''))
                 else ''#''))"

text \<open>
  The resolver as the specification words it for asset records: the placeholder when the
  base is missing, when the record lacks both \<open>connection_id\<close> and \<open>redirect_id\<close>, or
  when the base does not parse; otherwise the route of the asset group.
\<close>

definition specItemUrl :: "'u url_api \<Rightarrow> impact \<Rightarrow> string \<Rightarrow> string" where
  "specItemUrl api item baseUrl =
     (if baseUrl = [] then ''#''
      else if \<not> truthy (impact.connection_id item) \<and> \<not> truthy (impact.redirect_id item)
      then ''#''
      else
        (case parseUrl api baseUrl of
           None \<Rightarrow> ''#''
         | Some url \<Rightarrow>
             if impact.asset_group item = JStr ''pipeline'' \<and> truthy (is_transform item) then
               urlToString api (setPathname api url
                 (''/observe/pipeline/transformation/''
                    @ toString (impact.redirect_id item) @ ''/run''))
             else if impact.asset_group item = JStr ''pipeline'' then
               urlToString api (setPathname api url
                 (''/observe/pipeline/task/'' @ toString (impact.redirect_id item) @ ''/run''))
             else if impact.asset_group item = JStr ''report'' then
               urlToString api (setPathname api url
                 (''/observe/report/worksheet/''
                    @ toString (impact.redirect_id item) @ ''/overview''))
             else if impact.asset_group item = JStr ''data'' then
               urlToString api (setPathname api url
                 (''/observe/data/'' @ toString (impact.redirect_id item) @ ''/measures''))
             else ''#''))"

text \<open>
  A small instance of the URL interface, to run the resolver on concrete inputs: a base
  that starts with \<open>https://\<close> parses, and printing a URL appends the path to the
  authority (the base up to its first slash after the scheme).
\<close>

record simple_url =
  authority :: string
  pathname :: string

definition simpleParse :: "string \<Rightarrow> simple_url option" where
  "simpleParse s =
     (if prefix ''https://'' s \<and> length s > 8
      then Some \<lparr> authority = ''https://'' @ takeWhile (\<lambda>c. c \<noteq> CHR ''/'') (drop 8 s),
                  pathname = dropWhile (\<lambda>c. c \<noteq> CHR ''/'') (drop 8 s) \<rparr>
      else None)"

definition simpleApi :: "simple_url url_api" where
  "simpleApi =
     \<lparr> parseUrl = simpleParse,
       setPathname = (\<lambda>u p. u \<lparr> pathname := p \<rparr>),
       urlToString = (\<lambda>u. authority u @ pathname u) \<rparr>"

section \<open>The structured mirror of the report\<close>

text \<open>
  The module-level inputs and the run context that \<open>generateComprehensiveJSON\<close> can
  read. The display options of the report are \<open>parseConfigurableKeys\<close> of
  \<open>dqlabs_configurable_keys\<close>.
\<close>

record run_env =
  dqlabs_configurable_keys :: string
  dqlabs_base_url :: string
  dqlabs_createlink_url :: string
  now :: string
  sha :: jsval
  pull_request_number :: jsval

definition configurableKeys :: "run_env \<Rightarrow> output_options" where
  "configurableKeys env = parseConfigurableKeys (Some (dqlabs_configurable_keys env))"

record json_metadata =
  timestamp :: string
  commit_sha :: jsval
  pull_request_number :: jsval
  configurable_keys_used :: "string list"
  dqlabs_base_url :: string
  analysis_type :: string

record asset_entry =
  file_path :: string
  model_name :: jsval
  task_name :: jsval
  redirect_url :: string

record column_entry =
  file_path :: string
  table_name :: jsval
  column_name :: jsval
  data_type :: jsval
  task_name :: jsval
  redirect_url :: string

record asset_impacts =
  direct :: "asset_entry list"
  indirect :: "asset_entry list"

record column_impacts =
  direct :: "column_entry list"
  indirect :: "column_entry list"

record yml_column_changes =
  added :: "jsval list"
  removed :: "jsval list"

record json_summary =
  total_direct_assets :: nat
  total_indirect_assets :: nat
  total_direct_columns :: nat
  total_indirect_columns :: nat
  total_yml_added :: nat
  total_yml_removed :: nat
  total_changed_files :: nat

record json_data =
  metadata :: json_metadata
  changed_files :: "string list"
  asset_impacts :: asset_impacts
  column_impacts :: column_impacts
  yml_column_changes :: yml_column_changes
  summary :: json_summary

definition assetEntry :: "'u url_api \<Rightarrow> run_env \<Rightarrow> string \<Rightarrow> jsval \<Rightarrow> impact \<Rightarrow> asset_entry" where
  "assetEntry api env path tName model =
     \<lparr> asset_entry.file_path = path, model_name = impact.name model,
       asset_entry.task_name = tName,
       asset_entry.redirect_url = constructItemUrl api (Some model) (dqlabs_createlink_url env) \<rparr>"

definition columnEntry ::
  "'u url_api \<Rightarrow> run_env \<Rightarrow> string \<Rightarrow> jsval \<Rightarrow> column_impact \<Rightarrow> column_entry" where
  "columnEntry api env path tName col =
     \<lparr> column_entry.file_path = path, table_name = column_impact.table_name col,
       column_name = column_impact.column_name col, data_type = column_impact.data_type col,
       column_entry.task_name = tName,
       column_entry.redirect_url =
         constructColumnUrl api (Some col) (dqlabs_createlink_url env) \<rparr>"

text \<open>
  The object \<open>jsonData\<close> that \<open>generateComprehensiveJSON\<close> builds and hands to
  \<open>JSON.stringify\<close>. The loops over \<open>Object.entries\<close> push one entry per record, file
  by file.
\<close>

definition generateComprehensiveJSON ::
  "'u url_api \<Rightarrow> run_env \<Rightarrow> (string \<times> file_impact) list \<Rightarrow> (string \<times> column_impact_set) list
     \<Rightarrow> string list \<Rightarrow> column list \<Rightarrow> column list \<Rightarrow> json_data" where
  "generateComprehensiveJSON api env fileImpacts columnImpacts changedFiles ymlAdded ymlRemoved =
     (let assetDirect =
            concat (map (\<lambda>(path, impacts).
              map (assetEntry api env path (file_impact.taskName impacts))
                (file_impact.direct impacts)) fileImpacts);
          assetIndirect =
            concat (map (\<lambda>(path, impacts).
              map (assetEntry api env path (file_impact.taskName impacts))
                (file_impact.indirect impacts)) fileImpacts);
          columnDirect =
            concat (map (\<lambda>(path, impacts).
              map (columnEntry api env path (column_impact_set.taskName impacts))
                (column_impact_set.direct impacts)) columnImpacts);
          columnIndirect =
            concat (map (\<lambda>(path, impacts).
              map (columnEntry api env path (column_impact_set.taskName impacts))
                (column_impact_set.indirect impacts)) columnImpacts)
      in \<lparr> metadata =
             \<lparr> timestamp = now env,
               commit_sha = sha env,
               json_metadata.pull_request_number = jsOr (run_env.pull_request_number env) Null,
               configurable_keys_used =
                 (if dqlabs_configurable_keys env = [] then []
                  else map trim (split CHR '','' (dqlabs_configurable_keys env))),
               json_metadata.dqlabs_base_url = run_env.dqlabs_base_url env,
               analysis_type = ''coalesce_yml_impact_analysis'' \<rparr>,
           changed_files = changedFiles,
           asset_impacts =
             \<lparr> asset_impacts.direct = assetDirect, asset_impacts.indirect = assetIndirect \<rparr>,
           column_impacts =
             \<lparr> column_impacts.direct = columnDirect, column_impacts.indirect = columnIndirect \<rparr>,
           yml_column_changes =
             \<lparr> yml_column_changes.added = map column.name ymlAdded,
               yml_column_changes.removed = map column.name ymlRemoved \<rparr>,
           summary =
             \<lparr> total_direct_assets = length assetDirect,
               total_indirect_assets = length assetIndirect,
               total_direct_columns = length columnDirect,
               total_indirect_columns = length columnIndirect,
               total_yml_added = length ymlAdded,
               total_yml_removed = length ymlRemoved,
               total_changed_files = length changedFiles \<rparr> \<rparr>)"

section \<open>The Markdown report\<close>

definition nl :: string where
  "nl = [CHR 0x0A]"

text \<open>\<open>v || "fallback"\<close> inside a template literal.\<close>

definition orText :: "jsval \<Rightarrow> string \<Rightarrow> string" where
  "orText v fallback = toString (jsOr v (JStr fallback))"

text \<open>One entry of a list of assets, a link when the record resolves to a URL.\<close>

definition assetLine :: "'u url_api \<Rightarrow> run_env \<Rightarrow> impact \<Rightarrow> string" where
  "assetLine api env model =
     (let url = constructItemUrl api (Some model) (dqlabs_createlink_url env);
          modelName = orText (impact.name model) ''Unknown''
      in if truthy (impact.connection_id model) \<and> url \<noteq> ''#''
         then ''- ['' @ modelName @ ''](''  @ url @ '')''
         else ''- '' @ modelName)"

definition columnLine :: "'u url_api \<Rightarrow> run_env \<Rightarrow> column_impact \<Rightarrow> string" where
  "columnLine api env col =
     (let url = constructColumnUrl api (Some col) (dqlabs_createlink_url env);
          columnName = orText (column_impact.table_name col) ''Unknown'' @ ''.''
                         @ orText (column_impact.column_name col) ''Unknown'';
          tail = '' - *'' @ orText (impact_type col) ''Referenced'' @ ''* (''
                   @ orText (column_impact.data_type col) ''Unknown Type'' @ '')''
      in if truthy (column_impact.connection_id col) \<and> url \<noteq> ''#''
         then ''- ['' @ columnName @ ''](''  @ url @ '')'' @ tail
         else ''- '' @ columnName @ tail)"

text \<open>The collapsible block of a list, left out when the list is empty.\<close>

definition detailsBlock :: "string \<Rightarrow> string list \<Rightarrow> string" where
  "detailsBlock title entries =
     (if length entries > 0
      then nl @ ''<details>'' @ nl @ ''<summary><b>'' @ title @ '' (''
             @ decimal (length entries) @ '')</b></summary>'' @ nl @ nl
             @ join nl entries @ nl @ ''</details>'' @ nl
      else [])"

definition buildNewAnalysisReport ::
  "'u url_api \<Rightarrow> run_env \<Rightarrow> (string \<times> file_impact) list \<Rightarrow> (string \<times> column_impact_set) list
     \<Rightarrow> string list \<Rightarrow> string" where
  "buildNewAnalysisReport api env fileImpacts columnImpacts changedFiles =
     (let opts = configurableKeys env;
          header =
            ''## Impact Analysis Report'' @ nl @ nl @ ''### Changed Files'' @ nl
              @ (if length changedFiles > 0
                 then concat (map (\<lambda>f. ''- '' @ f @ nl) changedFiles)
                 else ''- No files changed'' @ nl)
              @ nl;
          hasAssetKeys =
            (showDirectAssetCount opts \<or> showIndirectAssetCount opts
             \<or> showDirectAssetList opts \<or> showIndirectAssetList opts);
          totalDirectAssets =
            sum_list (map (\<lambda>(path, impacts). length (file_impact.direct impacts)) fileImpacts);
          totalIndirectAssets =
            sum_list (map (\<lambda>(path, impacts). length (file_impact.indirect impacts)) fileImpacts);
          directAssets =
            concat (map (\<lambda>(path, impacts). map (assetLine api env) (file_impact.direct impacts))
                      fileImpacts);
          indirectAssets =
            concat (map (\<lambda>(path, impacts). map (assetLine api env) (file_impact.indirect impacts))
                      fileImpacts);
          assetSection =
            (if hasAssetKeys then
               ''### Asset level Impacts'' @ nl
               @ (if showDirectAssetCount opts
                  then ''- **Total Directly Impacted:** '' @ decimal totalDirectAssets @ nl
                  else [])
               @ (if showIndirectAssetCount opts
                  then ''- **Total Indirectly Impacted:** '' @ decimal totalIndirectAssets @ nl
                  else [])
               @ (if showDirectAssetList opts
                  then detailsBlock ''Directly Impacted Assets'' directAssets else [])
               @ (if showIndirectAssetList opts
                  then detailsBlock ''Indirectly Impacted Assets'' indirectAssets else [])
               @ nl
             else []);
          hasColumnKeys =
            (showDirectColumnCount opts \<or> showIndirectColumnCount opts
             \<or> showDirectColumnList opts \<or> showIndirectColumnList opts);
          totalDirectColumns =
            sum_list (map (\<lambda>(path, impacts). length (column_impact_set.direct impacts))
                        columnImpacts);
          totalIndirectColumns =
            sum_list (map (\<lambda>(path, impacts). length (column_impact_set.indirect impacts))
                        columnImpacts);
          directColumns =
            concat (map (\<lambda>(path, impacts).
                           map (columnLine api env) (column_impact_set.direct impacts))
                      columnImpacts);
          indirectColumns =
            concat (map (\<lambda>(path, impacts).
                           map (columnLine api env) (column_impact_set.indirect impacts))
                      columnImpacts);
          columnSection =
            (if hasColumnKeys then
               ''### Column level Impacts'' @ nl
               @ (if showDirectColumnCount opts
                  then ''- **Total Directly Impacted Columns:** '' @ decimal totalDirectColumns @ nl
                  else [])
               @ (if showIndirectColumnCount opts
                  then ''- **Total Indirectly Impacted Columns:** ''
                         @ decimal totalIndirectColumns @ nl
                  else [])
               @ (if showDirectColumnList opts
                  then detailsBlock ''Directly Impacted Columns'' directColumns else [])
               @ (if showIndirectColumnList opts
                  then detailsBlock ''Indirectly Impacted Columns'' indirectColumns else [])
               @ nl
             else [])
      in header @ assetSection @ columnSection)"

text \<open>
  \<open>names.join(', ')\<close> on the names of columns: \<open>null\<close> and \<open>undefined\<close> print as
  nothing.
\<close>

definition joinNames :: "column list \<Rightarrow> string" where
  "joinNames cols =
     join '', '' (map (\<lambda>c. if isNullish (column.name c) then [] else toString (column.name c)) cols)"

text \<open>The variable \<open>summary\<close> of the run: the report and the section of the YAML columns.\<close>

definition summaryOf ::
  "'u url_api \<Rightarrow> run_env \<Rightarrow> (string \<times> file_impact) list \<Rightarrow> (string \<times> column_impact_set) list
     \<Rightarrow> string list \<Rightarrow> column list \<Rightarrow> column list \<Rightarrow> string" where
  "summaryOf api env fileImpacts columnImpacts changedFiles ymlAdded ymlRemoved =
     buildNewAnalysisReport api env fileImpacts columnImpacts changedFiles
     @ (if showYmlColumnChanges (configurableKeys env)
        then ''### YML Column Changes'' @ nl
               @ ''Added columns('' @ decimal (length ymlAdded) @ ''): '' @ joinNames ymlAdded @ nl
               @ ''Removed columns('' @ decimal (length ymlRemoved) @ ''): ''
               @ joinNames ymlRemoved @ nl @ nl
        else [])"

section \<open>Example inputs\<close>

text \<open>A run whose key string asks for the count and the list of the direct assets only.\<close>

definition exampleRunEnv :: "string \<Rightarrow> run_env" where
  "exampleRunEnv keys =
     \<lparr> dqlabs_configurable_keys = keys,
       run_env.dqlabs_base_url = ''https://api.example.com/'',
       dqlabs_createlink_url = ''https://dq.example.com'',
       now = ''2025-01-01T00:00:00.000Z'',
       sha = JStr ''4f2a9c1'',
       run_env.pull_request_number = JNum 12 \<rparr>"

definition assetA :: impact where
  "assetA =
     \<lparr> impact.name = JStr ''A'', connection_id = JNum 1, asset_name = JStr ''A'',
       asset_group = JStr ''data'', redirect_id = JStr ''r-a'', is_transform = JBool False \<rparr>"

definition assetB :: impact where
  "assetB =
     \<lparr> impact.name = JStr ''B'', connection_id = JNum 1, asset_name = JStr ''B'',
       asset_group = JStr ''pipeline'', redirect_id = JStr ''r-b'', is_transform = JBool True \<rparr>"

definition exampleFileImpacts :: "(string \<times> file_impact) list" where
  "exampleFileImpacts =
     [(''nodes/orders.yml'',
       \<lparr> file_impact.direct = [assetA, assetA], indirect = [assetA, assetB, assetB],
         taskName = JStr ''orders'' \<rparr>)]"

definition columnOf :: "string \<Rightarrow> string \<Rightarrow> column_impact" where
  "columnOf t c =
     \<lparr> column_impact.table_name = JStr t, column_impact.column_name = JStr c,
       column_impact.column_id = JNum 7, column_impact.data_type = JStr ''varchar'',
       column_impact.table_id = JNum 3, column_impact.redirect_id = JStr ''r-t'',
       column_impact.entity = Undefined, column_impact.connection_id = JNum 1,
       column_impact.asset_name = JStr t, column_impact.flow = Undefined,
       column_impact.depth = JNum 1, column_impact.impact_type = JStr ''Column Referenced'',
       column_impact.asset_group = JStr ''data'' \<rparr>"

definition exampleColumnImpacts :: "(string \<times> column_impact_set) list" where
  "exampleColumnImpacts =
     [(''nodes/orders.yml'',
       \<lparr> column_impact_set.direct = [columnOf ''sales'' ''tax'', columnOf ''sales'' ''tax''],
         indirect = [columnOf ''sales'' ''tax'', columnOf ''report'' ''tax''],
         taskName = JStr ''orders'', changedColumns = [''tax''] \<rparr>)]"

text \<open>Two asset records, and two column records, with different key fields.\<close>

definition dashedA :: impact where
  "dashedA =
     \<lparr> impact.name = JStr ''a-1'', connection_id = JNum 1, asset_name = JStr ''b'',
       asset_group = JStr ''data'', redirect_id = JStr ''r1'', is_transform = JBool False \<rparr>"

definition dashedB :: impact where
  "dashedB =
     \<lparr> impact.name = JStr ''a'', connection_id = JNum 1, asset_name = JStr ''1-b'',
       asset_group = JStr ''data'', redirect_id = JStr ''r2'', is_transform = JBool False \<rparr>"

text \<open>An asset record that has a \<open>redirect_id\<close> and no \<open>connection_id\<close>.\<close>

definition assetC :: impact where
  "assetC =
     \<lparr> impact.name = JStr ''C'', connection_id = Undefined, asset_name = JStr ''C'',
       asset_group = JStr ''pipeline'', redirect_id = JStr ''r-c'', is_transform = JBool False \<rparr>"

text \<open>Quoted names, lineage fields and tasks.\<close>

definition doubleQuoted :: "string \<Rightarrow> string" where
  "doubleQuoted s = CHR 0x22 # s @ [CHR 0x22]"

definition backticked :: "string \<Rightarrow> string" where
  "backticked s = CHR 0x60 # s @ [CHR 0x60]"

definition fieldNamed :: "string \<Rightarrow> field" where
  "fieldNamed n = \<lparr> field.name = Some n, id = JNum 1, data_type = JStr ''varchar'' \<rparr>"

definition taskNamed :: "string \<Rightarrow> string \<Rightarrow> task" where
  "taskNamed n ct =
     \<lparr> task.name = Some n, connection_type = Some ct, task_id = JStr (''task-'' @ n),
       asset_id = JStr (''asset-'' @ n), task.connection_id = JNum 1 \<rparr>"

definition exampleTasks :: "task option list" where
  "exampleTasks =
     [Some (taskNamed ''orders_staging'' ''coalesce_pipeline''),
      None,
      Some (taskNamed ''orders'' ''Coalesce_Pipeline''),
      Some (taskNamed ''orders'' ''dbt''),
      Some (taskNamed ''customers'' ''coalesce_pipeline'')]"

definition exampleModelNameOf :: "string \<Rightarrow> string option" where
  "exampleModelNameOf f = (if f = ''nodes/orders.yml'' then Some ''Orders'' else None)"

text \<open>Parsed YAML documents, a YAML parser and a repository for the column delta.\<close>

definition columnsDoc :: "string list \<Rightarrow> jsval" where
  "columnsDoc names =
     JObj [(''name'', JStr ''ORDERS''),
           (''operation'',
            JObj [(''metadata'',
                   JObj [(''columns'',
                          JArr (map (\<lambda>n. JObj [(''name'', JStr n), (''dataType'', JStr ''NUMBER'')])
                                  names))])])]"

definition namelessEntry :: jsval where
  "namelessEntry = JObj [(''dataType'', JStr ''NUMBER'')]"

definition coalesceDoc :: jsval where
  "coalesceDoc =
     JObj [(''operation'',
            JObj [(''metadata'',
                   JObj [(''columns'',
                          JArr [JObj [(''name'', JStr ''id'')], namelessEntry,
                                JObj [(''name'', JStr ''total'')]])])])]"

definition coalesceNamelessDoc :: jsval where
  "coalesceNamelessDoc =
     JObj [(''operation'', JObj [(''metadata'', JObj [(''columns'', JArr [namelessEntry])])])]"

definition fallbackDoc :: jsval where
  "fallbackDoc = JObj [(''columns'', JArr [namelessEntry])]"

definition exampleLoad :: "string \<Rightarrow> jsError + jsval" where
  "exampleLoad content =
     (if content = ''before'' then Inr (columnsDoc [''id'', ''total''])
      else if content = ''after'' then Inr (columnsDoc [''id'', ''total'', ''tax''])
      else if content = ''coalesce'' then Inr coalesceDoc
      else if content = ''fallback'' then Inr fallbackDoc
      else if content = ''coalesce-nameless'' then Inr coalesceNamelessDoc
      else if content = ''scalar'' then Inr (JStr ''just text'')
      else if content = ''blank'' \<or> content = [] then Inr Undefined
      else Inl YAMLException)"

text \<open>The record read from an entry of \<open>columnsDoc\<close>.\<close>

definition numberColumn :: "string \<Rightarrow> column" where
  "numberColumn n =
     \<lparr> column.name = JStr n, dataType = JStr ''NUMBER'', nullable = JBool False,
       primaryKey = JBool False \<rparr>"

definition exampleEnv :: git_env where
  "exampleEnv =
     \<lparr> baseSha = Some ''b0'', headSha = Some ''h1'',
       getFileContent =
         (\<lambda>sha f.
            if f = ''nodes/orders.yml'' \<and> sha = Some ''b0'' then Some ''before''
            else if f = ''nodes/orders.yml'' \<and> sha = Some ''h1'' then Some ''after''
            else if f = ''nodes/new.yml'' \<and> sha = Some ''h1'' then Some ''after''
            else if f = ''nodes/gone.yml'' \<and> sha = Some ''b0'' then Some ''before''
            else if f = ''nodes/emptied.yml'' \<and> sha = Some ''b0'' then Some ''before''
            else if f = ''nodes/emptied.yml'' \<and> sha = Some ''h1'' then Some []
            else None),
       yamlLoad = exampleLoad \<rparr>"

section \<open>Properties of the deduplication\<close>

lemma dedupLoop_keys: "key ` set (dedupLoop key seen arr) = key ` set arr - seen"
  by (induction arr arbitrary: seen) auto

lemma dedupLoop_distinct: "distinct (map key (dedupLoop key seen arr))"
proof (induction arr arbitrary: seen)
  case Nil
  show ?case by simp
next
  case (Cons item arr)
  have "key item \<notin> key ` set (dedupLoop key (insert (key item) seen) arr)"
    by (simp add: dedupLoop_keys)
  with Cons show ?case by simp
qed

lemma dedupLoop_fixed:
  "distinct (map key arr) \<Longrightarrow> key ` set arr \<inter> seen = {} \<Longrightarrow> dedupLoop key seen arr = arr"
proof (induction arr arbitrary: seen)
  case Nil
  show ?case by simp
next
  case (Cons item arr)
  from Cons.prems have fresh: "key item \<notin> seen" by auto
  from Cons.prems have "distinct (map key arr)"
    and "key ` set arr \<inter> insert (key item) seen = {}"
    by auto
  then have "dedupLoop key (insert (key item) seen) arr = arr" by (rule Cons.IH)
  with fresh show ?case by simp
qed

lemma dedupLoop_idem: "dedupLoop key {} (dedupLoop key {} arr) = dedupLoop key {} arr"
  by (rule dedupLoop_fixed) (simp_all add: dedupLoop_distinct)

text \<open>
  Direct precedence followed by deduplication, for any key function: the keys of the two
  results are disjoint and each result has no key twice.
\<close>

lemma precedence_then_dedup:
  fixes key :: "'a \<Rightarrow> string" and ds ins :: "'a list"
  defines "d \<equiv> dedupLoop key {} ds"
    and "i \<equiv> dedupLoop key {} (filter (\<lambda>item. key item \<notin> set (map key ds)) ins)"
  shows "set (map key d) \<inter> set (map key i) = {}"
    and "distinct (map key d)" and "distinct (map key i)"
proof -
  have "key ` set d = key ` set ds"
    by (simp add: d_def dedupLoop_keys)
  moreover have "key ` set i \<inter> key ` set ds = {}"
    by (auto simp: i_def dedupLoop_keys)
  ultimately show "set (map key d) \<inter> set (map key i) = {}"
    by auto
  show "distinct (map key d)" and "distinct (map key i)"
    by (simp_all add: d_def i_def dedupLoop_distinct)
qed

text \<open>
  Claim C8. Deduplication by identity key is idempotent: applying \<open>dedup\<close> (asset
  records) or \<open>columnDedup\<close> (column records) twice gives the same list as applying it
  once.
\<close>

theorem dedup_idempotent:
  "dedup (dedup arr) = dedup arr \<and> columnDedup (columnDedup cols) = columnDedup cols"
  by (simp add: dedup_def columnDedup_def dedupLoop_idem)

theorem dedup_idempotent_witness:
  "dedup [assetA, assetB, assetA] = [assetA, assetB]
   \<and> dedup (dedup [assetA, assetB, assetA]) = [assetA, assetB]
   \<and> columnDedup (columnDedup [columnOf ''s'' ''x'', columnOf ''s'' ''x''])
       = [columnOf ''s'' ''x'']"
proof -
  have a: "dedup [assetA, assetB, assetA] = [assetA, assetB]"
    by code_simp
  have c: "columnDedup [columnOf ''s'' ''x'', columnOf ''s'' ''x''] = [columnOf ''s'' ''x'']"
    by code_simp
  from dedup_idempotent [of "[assetA, assetB, assetA]" "[columnOf ''s'' ''x'', columnOf ''s'' ''x'']"]
  show ?thesis by (simp add: a c)
qed

text \<open>
  Claim C1. After reconciliation every file is still there, and for every file the direct
  and the indirect impacts share no identity key and neither list has an identity key
  twice; the same holds for the column-level impacts with the column identity key.
\<close>

theorem reconciled_disjoint_and_unique:
  "map fst (reconcileFileImpacts fileImpacts) = map fst fileImpacts
   \<and> (\<forall>(path, impacts) \<in> set (reconcileFileImpacts fileImpacts).
        set (map uniqueKey (file_impact.direct impacts))
          \<inter> set (map uniqueKey (file_impact.indirect impacts)) = {}
        \<and> distinct (map uniqueKey (file_impact.direct impacts))
        \<and> distinct (map uniqueKey (file_impact.indirect impacts)))
   \<and> map fst (reconcileColumnImpacts columnImpacts) = map fst columnImpacts
   \<and> (\<forall>(path, impacts) \<in> set (reconcileColumnImpacts columnImpacts).
        set (map columnUniqueKey (column_impact_set.direct impacts))
          \<inter> set (map columnUniqueKey (column_impact_set.indirect impacts)) = {}
        \<and> distinct (map columnUniqueKey (column_impact_set.direct impacts))
        \<and> distinct (map columnUniqueKey (column_impact_set.indirect impacts)))"
proof (intro conjI ballI)
  show "map fst (reconcileFileImpacts fileImpacts) = map fst fileImpacts"
    by (simp add: reconcileFileImpacts_def case_prod_unfold comp_def)
  show "map fst (reconcileColumnImpacts columnImpacts) = map fst columnImpacts"
    by (simp add: reconcileColumnImpacts_def case_prod_unfold comp_def)
next
  fix x assume "x \<in> set (reconcileFileImpacts fileImpacts)"
  then obtain path impacts where
    x: "x = (path, dedupFile (removeDirectFromIndirect impacts))"
    by (auto simp: reconcileFileImpacts_def)
  have d: "file_impact.direct (dedupFile (removeDirectFromIndirect impacts))
      = dedupLoop uniqueKey {} (file_impact.direct impacts)"
    by (simp add: dedupFile_def removeDirectFromIndirect_def dedup_def)
  have i: "file_impact.indirect (dedupFile (removeDirectFromIndirect impacts))
      = dedupLoop uniqueKey {}
          (filter (\<lambda>item. uniqueKey item \<notin> set (map uniqueKey (file_impact.direct impacts)))
             (file_impact.indirect impacts))"
    by (simp add: dedupFile_def removeDirectFromIndirect_def dedup_def)
  show "case x of (path, impacts) \<Rightarrow>
      set (map uniqueKey (file_impact.direct impacts))
        \<inter> set (map uniqueKey (file_impact.indirect impacts)) = {}
      \<and> distinct (map uniqueKey (file_impact.direct impacts))
      \<and> distinct (map uniqueKey (file_impact.indirect impacts))"
    unfolding x prod.case d i
    by (intro conjI precedence_then_dedup)
next
  fix x assume "x \<in> set (reconcileColumnImpacts columnImpacts)"
  then obtain path impacts where
    x: "x = (path, dedupColumns (removeDirectFromIndirectColumns impacts))"
    by (auto simp: reconcileColumnImpacts_def)
  have d: "column_impact_set.direct (dedupColumns (removeDirectFromIndirectColumns impacts))
      = dedupLoop columnUniqueKey {} (column_impact_set.direct impacts)"
    by (simp add: dedupColumns_def removeDirectFromIndirectColumns_def columnDedup_def)
  have i: "column_impact_set.indirect (dedupColumns (removeDirectFromIndirectColumns impacts))
      = dedupLoop columnUniqueKey {}
          (filter (\<lambda>item. columnUniqueKey item
                      \<notin> set (map columnUniqueKey (column_impact_set.direct impacts)))
             (column_impact_set.indirect impacts))"
    by (simp add: dedupColumns_def removeDirectFromIndirectColumns_def columnDedup_def)
  show "case x of (path, impacts) \<Rightarrow>
      set (map columnUniqueKey (column_impact_set.direct impacts))
        \<inter> set (map columnUniqueKey (column_impact_set.indirect impacts)) = {}
      \<and> distinct (map columnUniqueKey (column_impact_set.direct impacts))
      \<and> distinct (map columnUniqueKey (column_impact_set.indirect impacts))"
    unfolding x prod.case d i
    by (intro conjI precedence_then_dedup)
qed

theorem reconciled_disjoint_and_unique_witness:
  "reconcileFileImpacts exampleFileImpacts
     = [(''nodes/orders.yml'',
         \<lparr> file_impact.direct = [assetA], indirect = [assetB], taskName = JStr ''orders'' \<rparr>)]
   \<and> set (map uniqueKey [assetA]) \<inter> set (map uniqueKey [assetB]) = {}
   \<and> reconcileColumnImpacts exampleColumnImpacts
     = [(''nodes/orders.yml'',
         \<lparr> column_impact_set.direct = [columnOf ''sales'' ''tax''],
           indirect = [columnOf ''report'' ''tax''],
           taskName = JStr ''orders'', changedColumns = [''tax''] \<rparr>)]
   \<and> set (map columnUniqueKey [columnOf ''sales'' ''tax''])
       \<inter> set (map columnUniqueKey [columnOf ''report'' ''tax'']) = {}"
proof -
  have f: "reconcileFileImpacts exampleFileImpacts
     = [(''nodes/orders.yml'',
         \<lparr> file_impact.direct = [assetA], indirect = [assetB], taskName = JStr ''orders'' \<rparr>)]"
    by code_simp
  have c: "reconcileColumnImpacts exampleColumnImpacts
     = [(''nodes/orders.yml'',
         \<lparr> column_impact_set.direct = [columnOf ''sales'' ''tax''],
           indirect = [columnOf ''report'' ''tax''],
           taskName = JStr ''orders'', changedColumns = [''tax''] \<rparr>)]"
    by code_simp
  from reconciled_disjoint_and_unique [of exampleFileImpacts exampleColumnImpacts]
  show ?thesis by (simp add: f c)
qed

text \<open>
  Claim C9. The identity key joins the key fields with \<open>-\<close>, so two records with
  different key fields can have the same key: the two asset records \<open>dashedA\<close> and
  \<open>dashedB\<close> (names \<open>a-1\<close> and \<open>a\<close>, asset names \<open>b\<close> and \<open>1-b\<close>) and the two column
  records of tables \<open>sales-eu\<close> and \<open>sales\<close> (columns \<open>id\<close> and \<open>eu-id\<close>) do.
  Deduplication keeps only the first of such a pair, and direct precedence removes the
  second from the indirect list when the first is a direct impact.
\<close>

theorem identity_key_collision:
  "(impact.name dashedA, impact.connection_id dashedA, impact.asset_name dashedA)
     \<noteq> (impact.name dashedB, impact.connection_id dashedB, impact.asset_name dashedB)
   \<and> uniqueKey dashedA = uniqueKey dashedB
   \<and> dedup [dashedA, dashedB] = [dashedA]
   \<and> reconcileFileImpacts
        [(''n.yml'', \<lparr> file_impact.direct = [dashedA], indirect = [dashedB], taskName = Null \<rparr>)]
       = [(''n.yml'', \<lparr> file_impact.direct = [dashedA], indirect = [], taskName = Null \<rparr>)]
   \<and> (column_impact.table_name (columnOf ''sales-eu'' ''id''), column_impact.column_name (columnOf ''sales-eu'' ''id''),
        column_impact.connection_id (columnOf ''sales-eu'' ''id''))
     \<noteq> (column_impact.table_name (columnOf ''sales'' ''eu-id''), column_impact.column_name (columnOf ''sales'' ''eu-id''),
        column_impact.connection_id (columnOf ''sales'' ''eu-id''))
   \<and> columnUniqueKey (columnOf ''sales-eu'' ''id'') = columnUniqueKey (columnOf ''sales'' ''eu-id'')
   \<and> columnDedup [columnOf ''sales-eu'' ''id'', columnOf ''sales'' ''eu-id'']
       = [columnOf ''sales-eu'' ''id'']
   \<and> reconcileColumnImpacts
        [(''n.yml'', \<lparr> column_impact_set.direct = [columnOf ''sales-eu'' ''id''],
                       indirect = [columnOf ''sales'' ''eu-id''], taskName = Null,
                       changedColumns = [''id''] \<rparr>)]
       = [(''n.yml'', \<lparr> column_impact_set.direct = [columnOf ''sales-eu'' ''id''],
                        indirect = [], taskName = Null, changedColumns = [''id''] \<rparr>)]"
proof (intro conjI)
  show "(impact.name dashedA, impact.connection_id dashedA, impact.asset_name dashedA)
     \<noteq> (impact.name dashedB, impact.connection_id dashedB, impact.asset_name dashedB)"
    by (simp add: dashedA_def dashedB_def)
  show "uniqueKey dashedA = uniqueKey dashedB"
    by code_simp
  show "dedup [dashedA, dashedB] = [dashedA]"
    by code_simp
  show "reconcileFileImpacts
        [(''n.yml'', \<lparr> file_impact.direct = [dashedA], indirect = [dashedB], taskName = Null \<rparr>)]
       = [(''n.yml'', \<lparr> file_impact.direct = [dashedA], indirect = [], taskName = Null \<rparr>)]"
    by code_simp
  show "(column_impact.table_name (columnOf ''sales-eu'' ''id''), column_impact.column_name (columnOf ''sales-eu'' ''id''),
        column_impact.connection_id (columnOf ''sales-eu'' ''id''))
     \<noteq> (column_impact.table_name (columnOf ''sales'' ''eu-id''), column_impact.column_name (columnOf ''sales'' ''eu-id''),
        column_impact.connection_id (columnOf ''sales'' ''eu-id''))"
    by (simp add: columnOf_def)
  show "columnUniqueKey (columnOf ''sales-eu'' ''id'') = columnUniqueKey (columnOf ''sales'' ''eu-id'')"
    by code_simp
  show "columnDedup [columnOf ''sales-eu'' ''id'', columnOf ''sales'' ''eu-id'']
       = [columnOf ''sales-eu'' ''id'']"
    by code_simp
  show "reconcileColumnImpacts
        [(''n.yml'', \<lparr> column_impact_set.direct = [columnOf ''sales-eu'' ''id''],
                       indirect = [columnOf ''sales'' ''eu-id''], taskName = Null,
                       changedColumns = [''id''] \<rparr>)]
       = [(''n.yml'', \<lparr> column_impact_set.direct = [columnOf ''sales-eu'' ''id''],
                        indirect = [], taskName = Null, changedColumns = [''id''] \<rparr>)]"
    by code_simp
qed

section \<open>Properties of the output options\<close>

text \<open>
  Claim C3, as the specification states it, fails: the string \<open>foo\<close> holds no recognised
  key, and \<open>parseConfigurableKeys\<close> switches every display flag off for it.
\<close>

theorem unrecognized_keys_counterexample:
  "optionKeys ''foo'' = [''foo'']
   \<and> ''foo'' \<notin> set recognizedKeys
   \<and> parseConfigurableKeys (Some ''foo'') = allOptions False
   \<and> allOptions False \<noteq> allOptions True"
proof (intro conjI)
  show "optionKeys ''foo'' = [''foo'']" by code_simp
  show "''foo'' \<notin> set recognizedKeys" by (simp add: recognizedKeys_def)
  show "parseConfigurableKeys (Some ''foo'') = allOptions False" by code_simp
  show "allOptions False \<noteq> allOptions True" by (simp add: allOptions_def)
qed

text \<open>
  Claim C3, amended. When the key string is absent or empty, all display flags are
  enabled. For a key string that is not empty, a flag is enabled exactly when its key is
  among the comma-separated entries (trimmed and lower-cased); so a string that is not
  empty and holds no recognised key disables all flags.
\<close>

theorem parseConfigurableKeys_defaults:
  "parseConfigurableKeys None = allOptions True
   \<and> parseConfigurableKeys (Some []) = allOptions True
   \<and> (s \<noteq> [] \<longrightarrow>
        parseConfigurableKeys (Some s) =
          \<lparr> showDirectColumnCount = ''direct_column_count'' \<in> set (optionKeys s),
            showIndirectColumnCount = ''indirect_column_count'' \<in> set (optionKeys s),
            showDirectAssetCount = ''direct_asset_count'' \<in> set (optionKeys s),
            showIndirectAssetCount = ''indirect_asset_count'' \<in> set (optionKeys s),
            showDirectColumnList = ''direct_column_list'' \<in> set (optionKeys s),
            showIndirectColumnList = ''indirect_column_list'' \<in> set (optionKeys s),
            showDirectAssetList = ''direct_asset_list'' \<in> set (optionKeys s),
            showIndirectAssetList = ''indirect_asset_list'' \<in> set (optionKeys s),
            showYmlColumnChanges = ''yml_column_changes'' \<in> set (optionKeys s) \<rparr>)
   \<and> (s \<noteq> [] \<and> set recognizedKeys \<inter> set (optionKeys s) = {}
        \<longrightarrow> parseConfigurableKeys (Some s) = allOptions False)"
  by (simp add: parseConfigurableKeys_def allOptions_def recognizedKeys_def Let_def)

theorem parseConfigurableKeys_defaults_witness:
  "''bar,baz'' \<noteq> []
   \<and> set recognizedKeys \<inter> set (optionKeys ''bar,baz'') = {}
   \<and> parseConfigurableKeys (Some ''bar,baz'') = allOptions False
   \<and> parseConfigurableKeys None = allOptions True"
proof -
  have k: "optionKeys ''bar,baz'' = [''bar'', ''baz'']" by code_simp
  have d: "set recognizedKeys \<inter> set (optionKeys ''bar,baz'') = {}"
    by (simp add: k recognizedKeys_def)
  note t = parseConfigurableKeys_defaults [of "''bar,baz''"]
  from t [THEN conjunct2, THEN conjunct2, THEN conjunct2] t [THEN conjunct1] d
  show ?thesis by simp
qed

section \<open>Properties of the YAML column reader\<close>

lemma getProp_defined: "\<not> isNullish e \<Longrightarrow> \<exists>v. getProp e k = Inr v"
  by (cases e) (simp_all add: isNullish_def)

lemma coalesceColumn_nullish: "isNullish e \<Longrightarrow> coalesceColumn e = Inl TypeError"
  by (auto simp: coalesceColumn_def bindE_def isNullish_def)

lemma coalesceColumn_name:
  assumes "\<not> isNullish e"
  shows "\<exists>col. coalesceColumn e = Inr col \<and> column.name col = jsOr (nameProp e) (JStr [])"
proof -
  obtain n d nu pk where "getProp e ''name'' = Inr n" "getProp e ''dataType'' = Inr d"
    "getProp e ''nullable'' = Inr nu" "getProp e ''primaryKey'' = Inr pk"
    using getProp_defined [OF assms] by metis
  then show ?thesis
    by (simp add: coalesceColumn_def bindE_def nameProp_def)
qed

text \<open>A callback that throws exactly on nullish entries, under \<open>mapE\<close>.\<close>

lemma mapE_nullish:
  assumes "\<And>e. isNullish e \<Longrightarrow> f e = Inl TypeError"
    and "\<And>e. \<not> isNullish e \<Longrightarrow> \<exists>col. f e = Inr col \<and> column.name col = g e"
  shows "if list_ex isNullish entries then mapE f entries = Inl TypeError
         else (\<exists>cs. mapE f entries = Inr cs \<and> map column.name cs = map g entries)"
proof (induction entries)
  case Nil
  show ?case by simp
next
  case (Cons e entries)
  show ?case
  proof (cases "isNullish e")
    case True
    then show ?thesis by (simp add: assms(1) bindE_def)
  next
    case False
    then obtain col where "f e = Inr col" "column.name col = g e"
      using assms(2) by blast
    with False Cons show ?thesis by (auto simp: bindE_def)
  qed
qed

lemma filter_truthy_or:
  "filter truthy (map (\<lambda>e. jsOr (nameProp e) (JStr [])) entries)
     = filter truthy (map nameProp entries)"
  by (induction entries) (auto simp: jsOr_def)

lemma map_name_filter:
  "map column.name (filter (\<lambda>col. truthy (column.name col)) cs)
     = filter truthy (map column.name cs)"
  by (induction cs) auto

lemma names_truthy:
  "\<forall>col \<in> set (extractColumnsFromYML load content fp). truthy (column.name col)"
  by (auto simp: extractColumnsFromYML_def extractColumnsBody_def bindE_def
      split: sum.splits if_splits)

lemma coalesce_branch:
  assumes "load content = Inr schema" "truthy schema"
    "coalesceColumnsOf schema = Inr (JArr entries)"
  shows "if list_ex isNullish entries then extractColumnsFromYML load content fp = []
     else map column.name (extractColumnsFromYML load content fp)
            = filter truthy (map nameProp entries)"
proof -
  note m = mapE_nullish [of coalesceColumn "\<lambda>e. jsOr (nameProp e) (JStr [])" entries,
      OF coalesceColumn_nullish coalesceColumn_name]
  show ?thesis
  proof (cases "list_ex isNullish entries")
    case True
    with m have "mapE coalesceColumn entries = Inl TypeError" by simp
    with assms True show ?thesis
      by (simp add: extractColumnsFromYML_def extractColumnsBody_def bindE_def)
  next
    case False
    with m obtain cs where cs: "mapE coalesceColumn entries = Inr cs"
      "map column.name cs = map (\<lambda>e. jsOr (nameProp e) (JStr [])) entries"
      by auto
    from assms cs(1) have "extractColumnsFromYML load content fp
        = filter (\<lambda>col. truthy (column.name col)) cs"
      by (simp add: extractColumnsFromYML_def extractColumnsBody_def bindE_def)
    with False cs(2) show ?thesis
      by (simp add: map_name_filter filter_truthy_or)
  qed
qed

text \<open>
  What \<open>extractColumnsFromYML\<close> does on every input: it returns a list, and every record
  in it has a truthy name (a string name is not empty). An error thrown in its body, a
  parse failure, an empty document and a document without a columns section give the empty
  list. In the Coalesce branch (\<open>operation.metadata.columns\<close> is an array) a nullish
  entry gives the empty list, and otherwise the names returned are the truthy \<open>name\<close>
  properties of the entries, in order: an entry lacking a name is filtered out.
\<close>

lemma extractColumnsFromYML_total_and_named:
  "(\<forall>col \<in> set (extractColumnsFromYML load content fp). truthy (column.name col))
   \<and> (\<forall>e. extractColumnsBody load content = Inl e
          \<longrightarrow> extractColumnsFromYML load content fp = [])
   \<and> (\<forall>e. load content = Inl e \<longrightarrow> extractColumnsFromYML load content fp = [])
   \<and> (\<forall>schema. load content = Inr schema \<and> \<not> truthy schema
          \<longrightarrow> extractColumnsFromYML load content fp = [])
   \<and> (\<forall>schema c c'. load content = Inr schema \<and> coalesceColumnsOf schema = Inr c
          \<and> \<not> truthy c \<and> getProp schema ''columns'' = Inr c' \<and> \<not> truthy c'
          \<longrightarrow> extractColumnsFromYML load content fp = [])
   \<and> (\<forall>schema entries. load content = Inr schema \<and> truthy schema
          \<and> coalesceColumnsOf schema = Inr (JArr entries)
          \<longrightarrow> (if list_ex isNullish entries
               then extractColumnsFromYML load content fp = []
               else map column.name (extractColumnsFromYML load content fp)
                      = filter truthy (map nameProp entries)))"
proof (intro conjI allI impI)
  show "\<forall>col \<in> set (extractColumnsFromYML load content fp). truthy (column.name col)"
    by (rule names_truthy)
next
  fix e assume "extractColumnsBody load content = Inl e"
  then show "extractColumnsFromYML load content fp = []"
    by (simp add: extractColumnsFromYML_def)
next
  fix e assume "load content = Inl e"
  then show "extractColumnsFromYML load content fp = []"
    by (simp add: extractColumnsFromYML_def extractColumnsBody_def bindE_def)
next
  fix schema assume "load content = Inr schema \<and> \<not> truthy schema"
  then show "extractColumnsFromYML load content fp = []"
    by (simp add: extractColumnsFromYML_def extractColumnsBody_def bindE_def)
next
  fix schema c c'
  assume "load content = Inr schema \<and> coalesceColumnsOf schema = Inr c
          \<and> \<not> truthy c \<and> getProp schema ''columns'' = Inr c' \<and> \<not> truthy c'"
  then show "extractColumnsFromYML load content fp = []"
    by (simp add: extractColumnsFromYML_def extractColumnsBody_def bindE_def)
next
  fix schema entries
  assume "load content = Inr schema \<and> truthy schema
          \<and> coalesceColumnsOf schema = Inr (JArr entries)"
  then show "if list_ex isNullish entries
               then extractColumnsFromYML load content fp = []
               else map column.name (extractColumnsFromYML load content fp)
                      = filter truthy (map nameProp entries)"
    using coalesce_branch [of load content schema entries fp] by blast
qed

lemma extractColumnsFromYML_total_and_named_example:
  "exampleLoad ''coalesce'' = Inr coalesceDoc
   \<and> truthy coalesceDoc
   \<and> coalesceColumnsOf coalesceDoc
       = Inr (JArr [JObj [(''name'', JStr ''id'')], namelessEntry, JObj [(''name'', JStr ''total'')]])
   \<and> map column.name (extractColumnsFromYML exampleLoad ''coalesce'' ''nodes/orders.yml'')
       = [JStr ''id'', JStr ''total'']
   \<and> exampleLoad ''{ broken'' = Inl YAMLException
   \<and> extractColumnsFromYML exampleLoad ''{ broken'' ''nodes/orders.yml'' = []
   \<and> exampleLoad ''blank'' = Inr Undefined
   \<and> extractColumnsFromYML exampleLoad ''blank'' ''nodes/orders.yml'' = []
   \<and> exampleLoad ''scalar'' = Inr (JStr ''just text'')
   \<and> extractColumnsFromYML exampleLoad ''scalar'' ''nodes/orders.yml'' = []"
proof -
  have l: "exampleLoad ''coalesce'' = Inr coalesceDoc"
    by (simp add: exampleLoad_def)
  have t: "truthy coalesceDoc"
    by (simp add: coalesceDoc_def)
  have c: "coalesceColumnsOf coalesceDoc
       = Inr (JArr [JObj [(''name'', JStr ''id'')], namelessEntry, JObj [(''name'', JStr ''total'')]])"
    by (simp add: coalesceDoc_def coalesceColumnsOf_def bindE_def jsAnd_def)
  have n: "\<not> list_ex isNullish [JObj [(''name'', JStr ''id'')], namelessEntry, JObj [(''name'', JStr ''total'')]]"
    by (simp add: isNullish_def namelessEntry_def)
  have f: "filter truthy (map nameProp [JObj [(''name'', JStr ''id'')], namelessEntry, JObj [(''name'', JStr ''total'')]])
      = [JStr ''id'', JStr ''total'']"
    by (simp add: nameProp_def namelessEntry_def)
  have b: "exampleLoad ''{ broken'' = Inl YAMLException"
    by (simp add: exampleLoad_def)
  have u: "exampleLoad ''blank'' = Inr Undefined"
    by (simp add: exampleLoad_def)
  have s: "exampleLoad ''scalar'' = Inr (JStr ''just text'')"
    by (simp add: exampleLoad_def)
  have sc: "coalesceColumnsOf (JStr ''just text'') = Inr Undefined"
    by (simp add: coalesceColumnsOf_def bindE_def jsAnd_def)
  have 1: "map column.name (extractColumnsFromYML exampleLoad ''coalesce'' ''nodes/orders.yml'')
       = [JStr ''id'', JStr ''total'']"
    using extractColumnsFromYML_total_and_named [of exampleLoad "''coalesce''" "''nodes/orders.yml''"]
      l t c n f by simp
  have 2: "extractColumnsFromYML exampleLoad ''{ broken'' ''nodes/orders.yml'' = []"
    using extractColumnsFromYML_total_and_named [of exampleLoad "''{ broken''" "''nodes/orders.yml''"]
      b by simp
  have 3: "extractColumnsFromYML exampleLoad ''blank'' ''nodes/orders.yml'' = []"
    using extractColumnsFromYML_total_and_named [of exampleLoad "''blank''" "''nodes/orders.yml''"]
      u by simp
  have 4: "extractColumnsFromYML exampleLoad ''scalar'' ''nodes/orders.yml'' = []"
    using extractColumnsFromYML_total_and_named [of exampleLoad "''scalar''" "''nodes/orders.yml''"]
      s sc by simp
  from l t c 1 b 2 u 3 s 4 show ?thesis by simp
qed

text \<open>
  Claim C10. The claim is right about what the function is meant to do, and the code
  misses it in the fallback branch (\<open>schema.columns\<close>): both branches end in
  \<open>.filter(col => col.name)\<close>, which the Coalesce branch comments as filtering out the
  columns without names, but the fallback branch builds \<open>{ name: col.name || col }\<close>, so an
  object entry without a \<open>name\<close> becomes its own name, is truthy, and passes the filter.
  On the entry \<open>{dataType: "NUMBER"}\<close>, which has no name, the Coalesce branch returns no
  column and the fallback branch returns one column whose name is the entry itself.
\<close>

theorem fallback_keeps_nameless_entry:
  "getProp namelessEntry ''name'' = Inr Undefined
   \<and> exampleLoad ''coalesce-nameless''
       = Inr (JObj [(''operation'',
                     JObj [(''metadata'', JObj [(''columns'', JArr [namelessEntry])])])])
   \<and> extractColumnsFromYML exampleLoad ''coalesce-nameless'' ''nodes/orders.yml'' = []
   \<and> exampleLoad ''fallback'' = Inr (JObj [(''columns'', JArr [namelessEntry])])
   \<and> extractColumnsFromYML exampleLoad ''fallback'' ''nodes/orders.yml''
       = [\<lparr> column.name = namelessEntry, dataType = Undefined, nullable = Undefined,
            primaryKey = Undefined \<rparr>]"
proof (intro conjI)
  show "getProp namelessEntry ''name'' = Inr Undefined"
    by (simp add: namelessEntry_def)
  show "exampleLoad ''coalesce-nameless''
       = Inr (JObj [(''operation'',
                     JObj [(''metadata'', JObj [(''columns'', JArr [namelessEntry])])])])"
    by (simp add: exampleLoad_def coalesceNamelessDoc_def)
  show "extractColumnsFromYML exampleLoad ''coalesce-nameless'' ''nodes/orders.yml'' = []"
    by code_simp
  show "exampleLoad ''fallback'' = Inr (JObj [(''columns'', JArr [namelessEntry])])"
    by (simp add: exampleLoad_def fallbackDoc_def)
  show "extractColumnsFromYML exampleLoad ''fallback'' ''nodes/orders.yml''
       = [\<lparr> column.name = namelessEntry, dataType = Undefined, nullable = Undefined,
            primaryKey = Undefined \<rparr>]"
    by code_simp
qed

section \<open>Properties of the column delta\<close>

lemma extractLoop_added:
  "changed_columns.added (extractLoop env acc fs)
     = changed_columns.added acc @ concat (map (addedOf env) fs)"
  by (induction fs arbitrary: acc) (auto simp: addedOf_def split: option.splits)

lemma extractLoop_removed:
  "changed_columns.removed (extractLoop env acc fs)
     = changed_columns.removed acc @ concat (map (removedOf env) fs)"
  by (induction fs arbitrary: acc) (auto simp: removedOf_def split: option.splits)

lemma extractLoop_modified: "modified (extractLoop env acc fs) = modified acc"
  by (induction fs arbitrary: acc) (auto split: option.splits)

lemma delta_without_base:
  "present (headContentOf env f) \<Longrightarrow> \<not> present (baseContentOf env f) \<Longrightarrow>
     fileColumnDelta env f = Some (columnsOfContent env (headContentOf env f) f, [])"
  by (auto simp: fileColumnDelta_def Let_def columnsOfContent_def present_def namesInclude_def
      split: option.splits)

text \<open>
  Claim C6, as stated, fails for a file whose content after the change is there but
  empty: \<open>nodes/emptied.yml\<close> has the columns \<open>id\<close> and \<open>total\<close> before the change and
  is an empty file after it. By the rule of the specification both columns are removed;
  the source skips the file at \<open>if (!headContent) continue\<close> and reports nothing.
\<close>

theorem empty_head_counterexample:
  "headContentOf exampleEnv ''nodes/emptied.yml'' = Some []
   \<and> specColumnDelta exampleEnv ''nodes/emptied.yml''
       = Some ([], [numberColumn ''id'', numberColumn ''total''])
   \<and> fileColumnDelta exampleEnv ''nodes/emptied.yml'' = None
   \<and> extractChangedColumns exampleEnv [''nodes/emptied.yml'']
       = \<lparr> changed_columns.added = [], removed = [], modified = [] \<rparr>"
proof (intro conjI)
  show "headContentOf exampleEnv ''nodes/emptied.yml'' = Some []"
    by code_simp
  show "specColumnDelta exampleEnv ''nodes/emptied.yml''
       = Some ([], [numberColumn ''id'', numberColumn ''total''])"
    by code_simp
  show "fileColumnDelta exampleEnv ''nodes/emptied.yml'' = None"
    by code_simp
  show "extractChangedColumns exampleEnv [''nodes/emptied.yml'']
       = \<lparr> changed_columns.added = [], removed = [], modified = [] \<rparr>"
    by code_simp
qed

text \<open>
  Claim C6, amended. \<open>extractChangedColumns\<close> goes through the changed files that end in
  \<open>.yml\<close>, in order, and appends what each contributes. A file whose content after the
  change is absent or empty is skipped entirely. For any other file the added columns are
  the columns after the change whose name is not among the names before it, and the
  removed columns are the columns before the change whose name is not among the names
  after it; when the content before the change is absent (or empty) every column after the
  change is added and none is removed. Names are compared by value (primitive names).
\<close>

theorem extractChangedColumns_delta:
  "changed_columns.added (extractChangedColumns env changedFiles)
     = concat (map (addedOf env) (filter isYml changedFiles))
   \<and> changed_columns.removed (extractChangedColumns env changedFiles)
     = concat (map (removedOf env) (filter isYml changedFiles))
   \<and> modified (extractChangedColumns env changedFiles) = []
   \<and> (\<not> present (headContentOf env f) \<longrightarrow>
        fileColumnDelta env f = None \<and> addedOf env f = [] \<and> removedOf env f = [])
   \<and> (present (headContentOf env f) \<longrightarrow>
        fileColumnDelta env f =
          Some (filter (\<lambda>col. \<not> namesInclude
                         (map column.name (columnsOfContent env (baseContentOf env f) f))
                         (column.name col))
                  (columnsOfContent env (headContentOf env f) f),
                filter (\<lambda>col. \<not> namesInclude
                         (map column.name (columnsOfContent env (headContentOf env f) f))
                         (column.name col))
                  (columnsOfContent env (baseContentOf env f) f)))
   \<and> (present (headContentOf env f) \<and> \<not> present (baseContentOf env f) \<longrightarrow>
        fileColumnDelta env f = Some (columnsOfContent env (headContentOf env f) f, []))
   \<and> (isPrimitive v \<longrightarrow> namesInclude names v = (v \<in> set names))"
proof (intro conjI impI)
  show "changed_columns.added (extractChangedColumns env changedFiles)
     = concat (map (addedOf env) (filter isYml changedFiles))"
    by (simp add: extractChangedColumns_def extractLoop_added)
  show "changed_columns.removed (extractChangedColumns env changedFiles)
     = concat (map (removedOf env) (filter isYml changedFiles))"
    by (simp add: extractChangedColumns_def extractLoop_removed)
  show "modified (extractChangedColumns env changedFiles) = []"
    by (simp add: extractChangedColumns_def extractLoop_modified)
next
  assume "\<not> present (headContentOf env f)"
  then show "fileColumnDelta env f = None" "addedOf env f = []" "removedOf env f = []"
    by (simp_all add: fileColumnDelta_def addedOf_def removedOf_def)
next
  assume "present (headContentOf env f)"
  then show "fileColumnDelta env f =
          Some (filter (\<lambda>col. \<not> namesInclude
                         (map column.name (columnsOfContent env (baseContentOf env f) f))
                         (column.name col))
                  (columnsOfContent env (headContentOf env f) f),
                filter (\<lambda>col. \<not> namesInclude
                         (map column.name (columnsOfContent env (headContentOf env f) f))
                         (column.name col))
                  (columnsOfContent env (baseContentOf env f) f))"
    by (simp add: fileColumnDelta_def Let_def)
next
  assume "present (headContentOf env f) \<and> \<not> present (baseContentOf env f)"
  then show "fileColumnDelta env f = Some (columnsOfContent env (headContentOf env f) f, [])"
    by (simp add: delta_without_base)
next
  assume "isPrimitive v"
  then show "namesInclude names v = (v \<in> set names)"
    by (simp add: namesInclude_def)
qed

theorem extractChangedColumns_delta_witness:
  "changed_columns.added
     (extractChangedColumns exampleEnv
        [''nodes/orders.yml'', ''README.md'', ''nodes/gone.yml'', ''nodes/new.yml''])
     = [\<lparr> column = JStr ''tax'', file' = ''nodes/orders.yml'' \<rparr>,
        \<lparr> column = JStr ''id'', file' = ''nodes/new.yml'' \<rparr>,
        \<lparr> column = JStr ''total'', file' = ''nodes/new.yml'' \<rparr>,
        \<lparr> column = JStr ''tax'', file' = ''nodes/new.yml'' \<rparr>]
   \<and> changed_columns.removed
     (extractChangedColumns exampleEnv
        [''nodes/orders.yml'', ''README.md'', ''nodes/gone.yml'', ''nodes/new.yml'']) = []
   \<and> present (headContentOf exampleEnv ''nodes/orders.yml'')
   \<and> fileColumnDelta exampleEnv ''nodes/orders.yml'' = Some ([numberColumn ''tax''], [])
   \<and> \<not> present (headContentOf exampleEnv ''nodes/gone.yml'')
   \<and> fileColumnDelta exampleEnv ''nodes/gone.yml'' = None
   \<and> present (headContentOf exampleEnv ''nodes/new.yml'')
   \<and> \<not> present (baseContentOf exampleEnv ''nodes/new.yml'')
   \<and> fileColumnDelta exampleEnv ''nodes/new.yml''
       = Some ([numberColumn ''id'', numberColumn ''total'', numberColumn ''tax''], [])"
proof -
  let ?files = "[''nodes/orders.yml'', ''README.md'', ''nodes/gone.yml'', ''nodes/new.yml'']"
  have y: "filter isYml ?files = [''nodes/orders.yml'', ''nodes/gone.yml'', ''nodes/new.yml'']"
    by code_simp
  have ho: "present (headContentOf exampleEnv ''nodes/orders.yml'')"
    by code_simp
  have hg: "\<not> present (headContentOf exampleEnv ''nodes/gone.yml'')"
    by code_simp
  have hn: "present (headContentOf exampleEnv ''nodes/new.yml'')"
    by code_simp
  have bn: "\<not> present (baseContentOf exampleEnv ''nodes/new.yml'')"
    by code_simp
  have co: "columnsOfContent exampleEnv (headContentOf exampleEnv ''nodes/orders.yml'')
       ''nodes/orders.yml'' = [numberColumn ''id'', numberColumn ''total'', numberColumn ''tax'']"
    by code_simp
  have cb: "columnsOfContent exampleEnv (baseContentOf exampleEnv ''nodes/orders.yml'')
       ''nodes/orders.yml'' = [numberColumn ''id'', numberColumn ''total'']"
    by code_simp
  have cn: "columnsOfContent exampleEnv (headContentOf exampleEnv ''nodes/new.yml'')
       ''nodes/new.yml'' = [numberColumn ''id'', numberColumn ''total'', numberColumn ''tax'']"
    by code_simp
  note t = extractChangedColumns_delta [of exampleEnv ?files]
  have do: "fileColumnDelta exampleEnv ''nodes/orders.yml'' = Some ([numberColumn ''tax''], [])"
    using t [of "''nodes/orders.yml''"] ho
    by (simp add: co cb namesInclude_def numberColumn_def)
  have dg: "fileColumnDelta exampleEnv ''nodes/gone.yml'' = None"
    using t [of "''nodes/gone.yml''"] hg by simp
  have dn: "fileColumnDelta exampleEnv ''nodes/new.yml''
       = Some ([numberColumn ''id'', numberColumn ''total'', numberColumn ''tax''], [])"
    using t [of "''nodes/new.yml''", THEN conjunct2, THEN conjunct2, THEN conjunct2,
        THEN conjunct2, THEN conjunct2, THEN conjunct1] hn bn
    by (simp add: cn)
  have a: "changed_columns.added (extractChangedColumns exampleEnv ?files)
     = [\<lparr> column = JStr ''tax'', file' = ''nodes/orders.yml'' \<rparr>,
        \<lparr> column = JStr ''id'', file' = ''nodes/new.yml'' \<rparr>,
        \<lparr> column = JStr ''total'', file' = ''nodes/new.yml'' \<rparr>,
        \<lparr> column = JStr ''tax'', file' = ''nodes/new.yml'' \<rparr>]"
    using t [of "''nodes/orders.yml''", THEN conjunct1] unfolding y
    by (simp add: addedOf_def do dg dn numberColumn_def)
  have r: "changed_columns.removed (extractChangedColumns exampleEnv ?files) = []"
    using t [of "''nodes/orders.yml''", THEN conjunct2, THEN conjunct1] unfolding y
    by (simp add: removedOf_def do dg dn)
  from a r ho do hg dg hn bn dn show ?thesis by simp
qed

section \<open>Properties of the column matching\<close>

lemma sublist_filter: "sublist xs ys \<Longrightarrow> sublist (filter P xs) (filter P ys)"
  unfolding sublist_def by (metis filter_append)

lemma columnMatches_iff:
  "columnMatches fname c \<longleftrightarrow>
     includesStr (toLowerCase (orEmpty fname)) (toLowerCase c)
     \<or> includesStr (toLowerCase c) (toLowerCase (orEmpty fname))
     \<or> stripQuotes (toLowerCase (orEmpty fname)) = stripQuotes (toLowerCase c)"
  by (auto simp: columnMatches_def Let_def includesStr_def)

lemma columnMatches_spec: "columnMatches fname c \<Longrightarrow> specRelevant fname c"
  by (auto simp: columnMatches_iff specRelevant_def Let_def includesStr_def stripQuotes_def
      intro: sublist_filter)

text \<open>
  Claim C2, as stated, fails in the direction from the relation to the marking: for the
  field \<open>"order_id"\<close> (in double quotes) and the changed column \<open>order_id_2\<close> the names
  without quotes are \<open>order_id\<close> and \<open>order_id_2\<close>, and the first is contained in the
  second; the source does not mark the field, since it tests containment on the names with
  their quotes and removes the quotes only for the last test, which is an equality.
\<close>

theorem quoted_substring_counterexample:
  "specRelevant (Some (doubleQuoted ''order_id'')) ''order_id_2''
   \<and> \<not> columnMatches (Some (doubleQuoted ''order_id'')) ''order_id_2''
   \<and> \<not> isImpacted [''order_id_2''] (fieldNamed (doubleQuoted ''order_id''))"
proof (intro conjI)
  show "specRelevant (Some (doubleQuoted ''order_id'')) ''order_id_2''"
    by code_simp
  show "\<not> columnMatches (Some (doubleQuoted ''order_id'')) ''order_id_2''"
    by code_simp
  show "\<not> isImpacted [''order_id_2''] (fieldNamed (doubleQuoted ''order_id''))"
    by code_simp
qed

text \<open>
  Claim C2, amended. A lineage field is marked relevant exactly when, for some changed
  column, after lower-casing both names one name contains the other as a substring (equal
  names included), or the two lower-cased names are equal once the quote characters
  backtick, double quote and single quote are removed from both. Every field that is
  marked satisfies the relation of the specification (the converse does not hold). The
  records returned for a table are those of its marked fields, in order. In particular the
  field \<open>"Order_ID"\<close> matches the changed column \<open>order_id\<close>, and the field \<open>`amount`\<close>
  matches \<open>Amount\<close>.
\<close>

theorem column_matching_rule:
  "(isImpacted cols fld \<longleftrightarrow>
      (\<exists>c \<in> set cols.
         includesStr (toLowerCase (orEmpty (field.name fld))) (toLowerCase c)
         \<or> includesStr (toLowerCase c) (toLowerCase (orEmpty (field.name fld)))
         \<or> stripQuotes (toLowerCase (orEmpty (field.name fld))) = stripQuotes (toLowerCase c)))
   \<and> (isImpacted cols fld \<longrightarrow>
        (\<exists>c \<in> set cols. specRelevant (field.name fld) c))
   \<and> columnImpactsOf [t] cols
       = map (impactRecord t) (filter (isImpacted cols) (fields' t))"
proof (intro conjI impI)
  show "isImpacted cols fld \<longleftrightarrow>
      (\<exists>c \<in> set cols.
         includesStr (toLowerCase (orEmpty (field.name fld))) (toLowerCase c)
         \<or> includesStr (toLowerCase c) (toLowerCase (orEmpty (field.name fld)))
         \<or> stripQuotes (toLowerCase (orEmpty (field.name fld))) = stripQuotes (toLowerCase c))"
    by (simp add: isImpacted_def list_ex_iff columnMatches_iff)
next
  assume "isImpacted cols fld"
  then obtain c where "c \<in> set cols" "columnMatches (field.name fld) c"
    by (auto simp: isImpacted_def list_ex_iff)
  then show "\<exists>c \<in> set cols. specRelevant (field.name fld) c"
    by (blast intro: columnMatches_spec)
next
  show "columnImpactsOf [t] cols
       = map (impactRecord t) (filter (isImpacted cols) (fields' t))"
    by (simp add: columnImpactsOf_def)
qed

theorem column_matching_rule_witness:
  "isImpacted [''order_id''] (fieldNamed (doubleQuoted ''Order_ID''))
   \<and> specRelevant (Some (doubleQuoted ''Order_ID'')) ''order_id''
   \<and> isImpacted [''Amount''] (fieldNamed (backticked ''amount''))
   \<and> specRelevant (Some (backticked ''amount'')) ''Amount''"
proof -
  have n: "\<And>s. field.name (fieldNamed s) = Some s"
    by (simp add: fieldNamed_def)
  have o: "includesStr (toLowerCase (orEmpty (Some (doubleQuoted ''Order_ID''))))
      (toLowerCase ''order_id'')"
    by code_simp
  have a: "includesStr (toLowerCase (orEmpty (Some (backticked ''amount''))))
      (toLowerCase ''Amount'')"
    by code_simp
  note t1 = column_matching_rule [of "[''order_id'']" "fieldNamed (doubleQuoted ''Order_ID'')"]
  note t2 = column_matching_rule [of "[''Amount'']" "fieldNamed (backticked ''amount'')"]
  have i1: "isImpacted [''order_id''] (fieldNamed (doubleQuoted ''Order_ID''))"
    using t1 [THEN conjunct1] o by (simp add: n)
  have i2: "isImpacted [''Amount''] (fieldNamed (backticked ''amount''))"
    using t2 [THEN conjunct1] a by (simp add: n)
  from t1 [THEN conjunct2, THEN conjunct1] i1
  have s1: "specRelevant (Some (doubleQuoted ''Order_ID'')) ''order_id''"
    by (simp add: n)
  from t2 [THEN conjunct2, THEN conjunct1] i2
  have s2: "specRelevant (Some (backticked ''amount'')) ''Amount''"
    by (simp add: n)
  from i1 s1 i2 s2 show ?thesis by simp
qed

section \<open>Properties of the task matching\<close>

lemma collectModels_inv:
  assumes "collectModels mn (cm0, mp0) fs = (cm, mp)"
    and "\<forall>m \<in> set cm0. m \<noteq> [] \<and> present (mp0 m)"
    and "\<forall>f \<in> set fs. f \<noteq> []"
  shows "\<forall>m \<in> set cm. m \<noteq> [] \<and> present (mp m)"
  using assms
proof (induction fs arbitrary: cm0 mp0)
  case Nil
  then show ?case by simp
next
  case (Cons f fs)
  show ?case
  proof (cases "mn f")
    case None
    with Cons.prems have "collectModels mn (cm0, mp0) fs = (cm, mp)" by simp
    from Cons.IH [OF this] Cons.prems show ?thesis by simp
  next
    case (Some m)
    show ?thesis
    proof (cases "m = []")
      case True
      with Some Cons.prems have "collectModels mn (cm0, mp0) fs = (cm, mp)" by simp
      from Cons.IH [OF this] Cons.prems show ?thesis by simp
    next
      case False
      with Some Cons.prems
      have c: "collectModels mn (cm0 @ [m], mp0(m \<mapsto> f)) fs = (cm, mp)"
        by simp
      from Cons.prems have "f \<noteq> []" by simp
      with False Cons.prems(2)
      have "\<forall>m' \<in> set (cm0 @ [m]). m' \<noteq> [] \<and> present ((mp0(m \<mapsto> f)) m')"
        by (auto simp: present_def)
      from Cons.IH [OF c this] Cons.prems show ?thesis by simp
    qed
  qed
qed

lemma collectModels_models:
  "fst (collectModels mn (cm0, mp0) fs)
     = cm0 @ concat (map (\<lambda>f. case mn f of
                                 None \<Rightarrow> []
                               | Some m \<Rightarrow> if m = [] then [] else [m]) fs)"
  by (induction fs arbitrary: cm0 mp0) (auto split: option.splits)

lemma find_matching: "list_ex P xs \<Longrightarrow> \<exists>m \<in> set xs. find P xs = Some m"
  by (induction xs) auto

lemma toMatched_present:
  assumes "\<forall>m \<in> set cm. m \<noteq> [] \<and> present (mp m)" and "nameMatches cm t"
  shows "present (filePath (toMatched cm mp t))"
proof -
  from assms(2) obtain m where "m \<in> set cm"
    "find (\<lambda>model. toLowerCase model = toLowerCase (orEmpty (task.name t))) cm = Some m"
    using find_matching [of "\<lambda>model. toLowerCase model = toLowerCase (orEmpty (task.name t))" cm]
    by (auto simp: nameMatches_def Let_def)
  with assms(1) show ?thesis
    by (auto simp: toMatched_def Let_def)
qed

lemma truncate_toMatched: "task.truncate (toMatched cm mp t) = t"
  by (simp add: toMatched_def Let_def task.truncate_def)

lemma matchedTasks_all:
  assumes "\<forall>m \<in> set cm. m \<noteq> [] \<and> present (mp m)"
  shows "matchedTasks cm mp cts = map (toMatched cm mp) (filter (nameMatches cm) cts)"
  unfolding matchedTasks_def
  by (rule filter_True) (auto intro: toMatched_present [OF assms])

text \<open>
  Claim C7. The matched tasks, without the two properties added to them, are exactly the
  tasks of the Coalesce connector whose lower-cased name equals the lower-cased name of
  some changed model, in the order of the task list: equality of the names, no substring
  match. Each matched task carries the path of a changed file and \<open>entity = task_id || ""\<close>.
  The changed models are the non-empty model names read from the changed \<open>.yml\<close> files.
\<close>

theorem task_matching_exact:
  "map task.truncate (matchedTasksOfRun modelNameOf changedFiles tasks)
     = filter (\<lambda>t. \<exists>model \<in> set (changedModelsOf modelNameOf changedFiles).
                      toLowerCase model = toLowerCase (orEmpty (task.name t)))
         (coalesceTasks tasks)
   \<and> (\<forall>mt \<in> set (matchedTasksOfRun modelNameOf changedFiles tasks).
         present (filePath mt) \<and> entity mt = jsOr (task_id mt) (JStr []))
   \<and> changedModelsOf modelNameOf changedFiles
     = concat (map (\<lambda>f. case modelNameOf f of
                           None \<Rightarrow> []
                         | Some m \<Rightarrow> if m = [] then [] else [m])
                 (filter isYml changedFiles))"
proof -
  obtain cm mp where
    c: "collectModels modelNameOf ([], Map.empty) (filter isYml changedFiles) = (cm, mp)"
    by (cases "collectModels modelNameOf ([], Map.empty) (filter isYml changedFiles)")
  have inv: "\<forall>m \<in> set cm. m \<noteq> [] \<and> present (mp m)"
    by (rule collectModels_inv [OF c]) (simp_all add: isYml_def)
  have cm: "changedModelsOf modelNameOf changedFiles = cm"
    by (simp add: changedModelsOf_def c)
  have run: "matchedTasksOfRun modelNameOf changedFiles tasks
      = map (toMatched cm mp) (filter (nameMatches cm) (coalesceTasks tasks))"
    by (simp add: matchedTasksOfRun_def c matchedTasks_all [OF inv])
  have nm: "nameMatches cm
      = (\<lambda>t. \<exists>model \<in> set cm. toLowerCase model = toLowerCase (orEmpty (task.name t)))"
    by (rule ext) (simp add: nameMatches_def Let_def list_ex_iff)
  have 1: "map task.truncate (matchedTasksOfRun modelNameOf changedFiles tasks)
     = filter (\<lambda>t. \<exists>model \<in> set (changedModelsOf modelNameOf changedFiles).
                      toLowerCase model = toLowerCase (orEmpty (task.name t)))
         (coalesceTasks tasks)"
    by (simp add: run cm nm comp_def truncate_toMatched)
  have 2: "\<forall>mt \<in> set (matchedTasksOfRun modelNameOf changedFiles tasks).
         present (filePath mt) \<and> entity mt = jsOr (task_id mt) (JStr [])"
    unfolding run using toMatched_present [OF inv]
    by (auto simp: toMatched_def Let_def)
  have 3: "changedModelsOf modelNameOf changedFiles
     = concat (map (\<lambda>f. case modelNameOf f of
                           None \<Rightarrow> []
                         | Some m \<Rightarrow> if m = [] then [] else [m])
                 (filter isYml changedFiles))"
    by (simp add: changedModelsOf_def collectModels_models)
  from 1 2 3 show ?thesis by blast
qed

theorem task_matching_exact_witness:
  "changedModelsOf exampleModelNameOf [''nodes/orders.yml'', ''README.md''] = [''Orders'']
   \<and> coalesceTasks exampleTasks
       = [taskNamed ''orders_staging'' ''coalesce_pipeline'',
          taskNamed ''orders'' ''Coalesce_Pipeline'',
          taskNamed ''customers'' ''coalesce_pipeline'']
   \<and> map task.truncate
        (matchedTasksOfRun exampleModelNameOf [''nodes/orders.yml'', ''README.md''] exampleTasks)
       = [taskNamed ''orders'' ''Coalesce_Pipeline'']"
proof -
  let ?files = "[''nodes/orders.yml'', ''README.md'']"
  have m: "changedModelsOf exampleModelNameOf ?files = [''Orders'']"
    by code_simp
  have c: "coalesceTasks exampleTasks
       = [taskNamed ''orders_staging'' ''coalesce_pipeline'',
          taskNamed ''orders'' ''Coalesce_Pipeline'',
          taskNamed ''customers'' ''coalesce_pipeline'']"
    by code_simp
  have l: "toLowerCase ''Orders'' = ''orders''"
    "toLowerCase ''orders_staging'' = ''orders_staging''"
    "toLowerCase ''orders'' = ''orders''"
    "toLowerCase ''customers'' = ''customers''"
    by code_simp+
  from task_matching_exact [of exampleModelNameOf ?files exampleTasks, THEN conjunct1]
  have "map task.truncate (matchedTasksOfRun exampleModelNameOf ?files exampleTasks)
       = [taskNamed ''orders'' ''Coalesce_Pipeline'']"
    unfolding m c by (simp add: taskNamed_def orEmpty_def l)
  with m c show ?thesis by simp
qed

section \<open>Properties of the URL resolver\<close>

text \<open>
  Claim C4, as stated, fails: the record \<open>assetC\<close> has a \<open>redirect_id\<close> and no
  \<open>connection_id\<close>, so it does not lack both, and its asset group is \<open>pipeline\<close>. By
  the claim it is routed to the task page; the source returns the placeholder, since it
  requires both identifiers.
\<close>

theorem missing_connection_counterexample:
  "truthy (impact.redirect_id assetC)
   \<and> \<not> truthy (impact.connection_id assetC)
   \<and> specItemUrl simpleApi assetC ''https://dq.example.com''
       = ''https://dq.example.com/observe/pipeline/task/r-c/run''
   \<and> constructItemUrl simpleApi (Some assetC) ''https://dq.example.com'' = ''#''"
proof (intro conjI)
  show "truthy (impact.redirect_id assetC)" by (simp add: assetC_def)
  show "\<not> truthy (impact.connection_id assetC)" by (simp add: assetC_def)
  show "specItemUrl simpleApi assetC ''https://dq.example.com''
       = ''https://dq.example.com/observe/pipeline/task/r-c/run''"
    by code_simp
  show "constructItemUrl simpleApi (Some assetC) ''https://dq.example.com'' = ''#''"
    by code_simp
qed

text \<open>
  Claim C4, amended. For every asset-level impact record the resolver returns the
  placeholder \<open>#\<close> when the record itself is missing, when the base URL is absent, when
  the base URL does not parse, or when the record lacks \<open>connection_id\<close> or lacks
  \<open>redirect_id\<close> (either of them); otherwise it routes by \<open>asset_group\<close>: pipeline with
  \<open>is_transform\<close> to the transformation page, pipeline to the task page, report to the
  worksheet page, data to the measures page, and any other group to \<open>#\<close>. So the resolver
  is the one of the specification except that a record lacking one identifier already
  gets the placeholder.
\<close>

theorem constructItemUrl_rule:
  "constructItemUrl api None baseUrl = ''#''
   \<and> (baseUrl = [] \<or> parseUrl api baseUrl = None
        \<or> \<not> truthy (impact.connection_id item) \<or> \<not> truthy (impact.redirect_id item)
        \<longrightarrow> constructItemUrl api (Some item) baseUrl = ''#'')
   \<and> (baseUrl \<noteq> [] \<and> parseUrl api baseUrl = Some url
        \<and> truthy (impact.connection_id item) \<and> truthy (impact.redirect_id item)
        \<longrightarrow> constructItemUrl api (Some item) baseUrl =
             (if impact.asset_group item = JStr ''pipeline'' \<and> truthy (is_transform item) then
                urlToString api (setPathname api url
                  (''/observe/pipeline/transformation/''
                     @ toString (impact.redirect_id item) @ ''/run''))
              else if impact.asset_group item = JStr ''pipeline'' then
                urlToString api (setPathname api url
                  (''/observe/pipeline/task/'' @ toString (impact.redirect_id item) @ ''/run''))
              else if impact.asset_group item = JStr ''report'' then
                urlToString api (setPathname api url
                  (''/observe/report/worksheet/''
                     @ toString (impact.redirect_id item) @ ''/overview''))
              else if impact.asset_group item = JStr ''data'' then
                urlToString api (setPathname api url
                  (''/observe/data/'' @ toString (impact.redirect_id item) @ ''/measures''))
              else ''#''))
   \<and> constructItemUrl api (Some item) baseUrl =
       (if \<not> truthy (impact.connection_id item) \<or> \<not> truthy (impact.redirect_id item)
        then ''#'' else specItemUrl api item baseUrl)"
proof (intro conjI impI)
  show "constructItemUrl api None baseUrl = ''#''"
    by (simp add: constructItemUrl_def)
next
  assume "baseUrl = [] \<or> parseUrl api baseUrl = None
        \<or> \<not> truthy (impact.connection_id item) \<or> \<not> truthy (impact.redirect_id item)"
  then show "constructItemUrl api (Some item) baseUrl = ''#''"
    by (auto simp: constructItemUrl_def split: option.splits)
next
  assume "baseUrl \<noteq> [] \<and> parseUrl api baseUrl = Some url
        \<and> truthy (impact.connection_id item) \<and> truthy (impact.redirect_id item)"
  then show "constructItemUrl api (Some item) baseUrl =
             (if impact.asset_group item = JStr ''pipeline'' \<and> truthy (is_transform item) then
                urlToString api (setPathname api url
                  (''/observe/pipeline/transformation/''
                     @ toString (impact.redirect_id item) @ ''/run''))
              else if impact.asset_group item = JStr ''pipeline'' then
                urlToString api (setPathname api url
                  (''/observe/pipeline/task/'' @ toString (impact.redirect_id item) @ ''/run''))
              else if impact.asset_group item = JStr ''report'' then
                urlToString api (setPathname api url
                  (''/observe/report/worksheet/''
                     @ toString (impact.redirect_id item) @ ''/overview''))
              else if impact.asset_group item = JStr ''data'' then
                urlToString api (setPathname api url
                  (''/observe/data/'' @ toString (impact.redirect_id item) @ ''/measures''))
              else ''#'')"
    by (simp add: constructItemUrl_def)
next
  show "constructItemUrl api (Some item) baseUrl =
       (if \<not> truthy (impact.connection_id item) \<or> \<not> truthy (impact.redirect_id item)
        then ''#'' else specItemUrl api item baseUrl)"
    by (simp add: constructItemUrl_def specItemUrl_def split: option.splits)
qed

theorem constructItemUrl_rule_witness:
  "parseUrl simpleApi ''https://dq.example.com''
     = Some \<lparr> authority = ''https://dq.example.com'', pathname = [] \<rparr>
   \<and> truthy (impact.connection_id assetB) \<and> truthy (impact.redirect_id assetB)
   \<and> constructItemUrl simpleApi (Some assetB) ''https://dq.example.com''
       = ''https://dq.example.com/observe/pipeline/transformation/r-b/run''
   \<and> constructItemUrl simpleApi (Some assetA) ''https://dq.example.com''
       = ''https://dq.example.com/observe/data/r-a/measures''
   \<and> parseUrl simpleApi ''not a url'' = None
   \<and> constructItemUrl simpleApi (Some assetA) ''not a url'' = ''#''
   \<and> constructItemUrl simpleApi (Some assetA) [] = ''#''"
proof -
  let ?base = "''https://dq.example.com''"
  let ?url = "\<lparr> authority = ''https://dq.example.com'', pathname = [] \<rparr>"
  have p: "parseUrl simpleApi ?base = Some ?url"
    by code_simp
  have q: "parseUrl simpleApi ''not a url'' = None"
    by code_simp
  have b: "truthy (impact.connection_id assetB)" "truthy (impact.redirect_id assetB)"
    "impact.asset_group assetB = JStr ''pipeline''" "truthy (is_transform assetB)"
    "toString (impact.redirect_id assetB) = ''r-b''"
    by (simp_all add: assetB_def)
  have a: "truthy (impact.connection_id assetA)" "truthy (impact.redirect_id assetA)"
    "impact.asset_group assetA = JStr ''data''"
    "toString (impact.redirect_id assetA) = ''r-a''"
    by (simp_all add: assetA_def)
  have 1: "constructItemUrl simpleApi (Some assetB) ?base
       = ''https://dq.example.com/observe/pipeline/transformation/r-b/run''"
    using constructItemUrl_rule [of simpleApi ?base assetB ?url,
        THEN conjunct2, THEN conjunct2, THEN conjunct1] p b
    by (simp add: simpleApi_def)
  have 2: "constructItemUrl simpleApi (Some assetA) ?base
       = ''https://dq.example.com/observe/data/r-a/measures''"
    using constructItemUrl_rule [of simpleApi ?base assetA ?url,
        THEN conjunct2, THEN conjunct2, THEN conjunct1] p a
    by (simp add: simpleApi_def)
  have 3: "constructItemUrl simpleApi (Some assetA) ''not a url'' = ''#''"
    using constructItemUrl_rule [of simpleApi "''not a url''" assetA ?url,
        THEN conjunct2, THEN conjunct1] q
    by simp
  have 4: "constructItemUrl simpleApi (Some assetA) [] = ''#''"
    using constructItemUrl_rule [of simpleApi "[]" assetA ?url, THEN conjunct2, THEN conjunct1]
    by simp
  from p b(1,2) 1 2 q 3 4 show ?thesis by simp
qed

section \<open>Properties of the structured mirror\<close>

lemma assetEntry_keys:
  "assetEntry api (env \<lparr> dqlabs_configurable_keys := k \<rparr>) = assetEntry api env"
  by (intro ext) (simp add: assetEntry_def)

lemma columnEntry_keys:
  "columnEntry api (env \<lparr> dqlabs_configurable_keys := k \<rparr>) = columnEntry api env"
  by (intro ext) (simp add: columnEntry_def)

lemma json_asset_names:
  "map model_name
     (concat (map (\<lambda>(path, impacts). map (assetEntry api env path (tn impacts)) (sel impacts)) fi))
   = concat (map (\<lambda>(path, impacts). map impact.name (sel impacts)) fi)"
  by (induction fi) (auto simp: assetEntry_def)

lemma json_column_names:
  "map (\<lambda>e. (column_entry.table_name e, column_entry.column_name e))
     (concat (map (\<lambda>(path, impacts). map (columnEntry api env path (tn impacts)) (sel impacts)) ci))
   = concat (map (\<lambda>(path, impacts).
                    map (\<lambda>c. (column_impact.table_name c, column_impact.column_name c))
                      (sel impacts)) ci)"
  by (induction ci) (auto simp: columnEntry_def)

lemma length_entries:
  "length (concat (map (\<lambda>(path, impacts). map (f path impacts) (sel impacts)) xs))
   = sum_list (map (\<lambda>(path, impacts). length (sel impacts)) xs)"
  by (induction xs) auto

text \<open>
  Claim C5. The sections \<open>asset_impacts\<close>, \<open>column_impacts\<close>, \<open>yml_column_changes\<close> and
  \<open>summary\<close> of the structured mirror do not depend on the option keys: two runs on the
  same reconciled data that differ only in the key string, hence in their display options,
  build the same four sections. The sections are fully populated: every direct and every
  indirect record of every file has its entry, in order, the column changes list every
  added and removed column, and the totals are the numbers of records.
\<close>

theorem json_mirror_ignores_options:
  "asset_impacts (generateComprehensiveJSON api (env \<lparr> dqlabs_configurable_keys := ka \<rparr>)
      fileImpacts columnImpacts changedFiles ymlAdded ymlRemoved)
     = asset_impacts (generateComprehensiveJSON api (env \<lparr> dqlabs_configurable_keys := kb \<rparr>)
         fileImpacts columnImpacts changedFiles ymlAdded ymlRemoved)
   \<and> column_impacts (generateComprehensiveJSON api (env \<lparr> dqlabs_configurable_keys := ka \<rparr>)
      fileImpacts columnImpacts changedFiles ymlAdded ymlRemoved)
     = column_impacts (generateComprehensiveJSON api (env \<lparr> dqlabs_configurable_keys := kb \<rparr>)
         fileImpacts columnImpacts changedFiles ymlAdded ymlRemoved)
   \<and> yml_column_changes (generateComprehensiveJSON api (env \<lparr> dqlabs_configurable_keys := ka \<rparr>)
      fileImpacts columnImpacts changedFiles ymlAdded ymlRemoved)
     = yml_column_changes (generateComprehensiveJSON api (env \<lparr> dqlabs_configurable_keys := kb \<rparr>)
         fileImpacts columnImpacts changedFiles ymlAdded ymlRemoved)
   \<and> summary (generateComprehensiveJSON api (env \<lparr> dqlabs_configurable_keys := ka \<rparr>)
      fileImpacts columnImpacts changedFiles ymlAdded ymlRemoved)
     = summary (generateComprehensiveJSON api (env \<lparr> dqlabs_configurable_keys := kb \<rparr>)
         fileImpacts columnImpacts changedFiles ymlAdded ymlRemoved)
   \<and> map model_name (asset_impacts.direct (asset_impacts
        (generateComprehensiveJSON api env fileImpacts columnImpacts changedFiles ymlAdded ymlRemoved)))
     = concat (map (\<lambda>(path, impacts). map impact.name (file_impact.direct impacts)) fileImpacts)
   \<and> map model_name (asset_impacts.indirect (asset_impacts
        (generateComprehensiveJSON api env fileImpacts columnImpacts changedFiles ymlAdded ymlRemoved)))
     = concat (map (\<lambda>(path, impacts). map impact.name (file_impact.indirect impacts)) fileImpacts)
   \<and> map (\<lambda>e. (column_entry.table_name e, column_entry.column_name e))
       (column_impacts.direct (column_impacts
        (generateComprehensiveJSON api env fileImpacts columnImpacts changedFiles ymlAdded ymlRemoved)))
     = concat (map (\<lambda>(path, impacts).
                      map (\<lambda>c. (column_impact.table_name c, column_impact.column_name c))
                        (column_impact_set.direct impacts)) columnImpacts)
   \<and> map (\<lambda>e. (column_entry.table_name e, column_entry.column_name e))
       (column_impacts.indirect (column_impacts
        (generateComprehensiveJSON api env fileImpacts columnImpacts changedFiles ymlAdded ymlRemoved)))
     = concat (map (\<lambda>(path, impacts).
                      map (\<lambda>c. (column_impact.table_name c, column_impact.column_name c))
                        (column_impact_set.indirect impacts)) columnImpacts)
   \<and> yml_column_changes
        (generateComprehensiveJSON api env fileImpacts columnImpacts changedFiles ymlAdded ymlRemoved)
     = \<lparr> yml_column_changes.added = map column.name ymlAdded,
         yml_column_changes.removed = map column.name ymlRemoved \<rparr>
   \<and> summary
        (generateComprehensiveJSON api env fileImpacts columnImpacts changedFiles ymlAdded ymlRemoved)
     = \<lparr> total_direct_assets =
           sum_list (map (\<lambda>(path, impacts). length (file_impact.direct impacts)) fileImpacts),
         total_indirect_assets =
           sum_list (map (\<lambda>(path, impacts). length (file_impact.indirect impacts)) fileImpacts),
         total_direct_columns =
           sum_list (map (\<lambda>(path, impacts). length (column_impact_set.direct impacts))
                       columnImpacts),
         total_indirect_columns =
           sum_list (map (\<lambda>(path, impacts). length (column_impact_set.indirect impacts))
                       columnImpacts),
         total_yml_added = length ymlAdded,
         total_yml_removed = length ymlRemoved,
         total_changed_files = length changedFiles \<rparr>"
proof (intro conjI)
  show "asset_impacts (generateComprehensiveJSON api (env \<lparr> dqlabs_configurable_keys := ka \<rparr>)
      fileImpacts columnImpacts changedFiles ymlAdded ymlRemoved)
     = asset_impacts (generateComprehensiveJSON api (env \<lparr> dqlabs_configurable_keys := kb \<rparr>)
         fileImpacts columnImpacts changedFiles ymlAdded ymlRemoved)"
    by (simp add: generateComprehensiveJSON_def Let_def assetEntry_keys)
  show "column_impacts (generateComprehensiveJSON api (env \<lparr> dqlabs_configurable_keys := ka \<rparr>)
      fileImpacts columnImpacts changedFiles ymlAdded ymlRemoved)
     = column_impacts (generateComprehensiveJSON api (env \<lparr> dqlabs_configurable_keys := kb \<rparr>)
         fileImpacts columnImpacts changedFiles ymlAdded ymlRemoved)"
    by (simp add: generateComprehensiveJSON_def Let_def columnEntry_keys)
  show "yml_column_changes (generateComprehensiveJSON api (env \<lparr> dqlabs_configurable_keys := ka \<rparr>)
      fileImpacts columnImpacts changedFiles ymlAdded ymlRemoved)
     = yml_column_changes (generateComprehensiveJSON api (env \<lparr> dqlabs_configurable_keys := kb \<rparr>)
         fileImpacts columnImpacts changedFiles ymlAdded ymlRemoved)"
    by (simp add: generateComprehensiveJSON_def Let_def)
  show "summary (generateComprehensiveJSON api (env \<lparr> dqlabs_configurable_keys := ka \<rparr>)
      fileImpacts columnImpacts changedFiles ymlAdded ymlRemoved)
     = summary (generateComprehensiveJSON api (env \<lparr> dqlabs_configurable_keys := kb \<rparr>)
         fileImpacts columnImpacts changedFiles ymlAdded ymlRemoved)"
    by (simp add: generateComprehensiveJSON_def Let_def assetEntry_keys columnEntry_keys)
  show "map model_name (asset_impacts.direct (asset_impacts
        (generateComprehensiveJSON api env fileImpacts columnImpacts changedFiles ymlAdded ymlRemoved)))
     = concat (map (\<lambda>(path, impacts). map impact.name (file_impact.direct impacts)) fileImpacts)"
    by (simp add: generateComprehensiveJSON_def Let_def json_asset_names)
  show "map model_name (asset_impacts.indirect (asset_impacts
        (generateComprehensiveJSON api env fileImpacts columnImpacts changedFiles ymlAdded ymlRemoved)))
     = concat (map (\<lambda>(path, impacts). map impact.name (file_impact.indirect impacts)) fileImpacts)"
    by (simp add: generateComprehensiveJSON_def Let_def json_asset_names)
  show "map (\<lambda>e. (column_entry.table_name e, column_entry.column_name e))
       (column_impacts.direct (column_impacts
        (generateComprehensiveJSON api env fileImpacts columnImpacts changedFiles ymlAdded ymlRemoved)))
     = concat (map (\<lambda>(path, impacts).
                      map (\<lambda>c. (column_impact.table_name c, column_impact.column_name c))
                        (column_impact_set.direct impacts)) columnImpacts)"
    by (simp add: generateComprehensiveJSON_def Let_def json_column_names)
  show "map (\<lambda>e. (column_entry.table_name e, column_entry.column_name e))
       (column_impacts.indirect (column_impacts
        (generateComprehensiveJSON api env fileImpacts columnImpacts changedFiles ymlAdded ymlRemoved)))
     = concat (map (\<lambda>(path, impacts).
                      map (\<lambda>c. (column_impact.table_name c, column_impact.column_name c))
                        (column_impact_set.indirect impacts)) columnImpacts)"
    by (simp add: generateComprehensiveJSON_def Let_def json_column_names)
  show "yml_column_changes
        (generateComprehensiveJSON api env fileImpacts columnImpacts changedFiles ymlAdded ymlRemoved)
     = \<lparr> yml_column_changes.added = map column.name ymlAdded,
         yml_column_changes.removed = map column.name ymlRemoved \<rparr>"
    by (simp add: generateComprehensiveJSON_def Let_def)
  show "summary
        (generateComprehensiveJSON api env fileImpacts columnImpacts changedFiles ymlAdded ymlRemoved)
     = \<lparr> total_direct_assets =
           sum_list (map (\<lambda>(path, impacts). length (file_impact.direct impacts)) fileImpacts),
         total_indirect_assets =
           sum_list (map (\<lambda>(path, impacts). length (file_impact.indirect impacts)) fileImpacts),
         total_direct_columns =
           sum_list (map (\<lambda>(path, impacts). length (column_impact_set.direct impacts))
                       columnImpacts),
         total_indirect_columns =
           sum_list (map (\<lambda>(path, impacts). length (column_impact_set.indirect impacts))
                       columnImpacts),
         total_yml_added = length ymlAdded,
         total_yml_removed = length ymlRemoved,
         total_changed_files = length changedFiles \<rparr>"
    by (simp add: generateComprehensiveJSON_def Let_def length_entries)
qed

theorem json_mirror_ignores_options_witness:
  "configurableKeys (exampleRunEnv ''direct_asset_count,direct_asset_list'')
     = (allOptions False) \<lparr> showDirectAssetCount := True, showDirectAssetList := True \<rparr>
   \<and> summaryOf simpleApi (exampleRunEnv ''direct_asset_count,direct_asset_list'')
       (reconcileFileImpacts exampleFileImpacts) (reconcileColumnImpacts exampleColumnImpacts)
       [''nodes/orders.yml''] [numberColumn ''tax''] []
     = ''## Impact Analysis Report'' @ nl @ nl
       @ ''### Changed Files'' @ nl
       @ ''- nodes/orders.yml'' @ nl @ nl
       @ ''### Asset level Impacts'' @ nl
       @ ''- **Total Directly Impacted:** 1'' @ nl @ nl
       @ ''<details>'' @ nl
       @ ''<summary><b>Directly Impacted Assets (1)</b></summary>'' @ nl @ nl
       @ ''- [A](https://dq.example.com/observe/data/r-a/measures)'' @ nl
       @ ''</details>'' @ nl @ nl
   \<and> asset_impacts (generateComprehensiveJSON simpleApi
        (exampleRunEnv ''direct_asset_count,direct_asset_list'')
        (reconcileFileImpacts exampleFileImpacts) (reconcileColumnImpacts exampleColumnImpacts)
        [''nodes/orders.yml''] [numberColumn ''tax''] [])
     = asset_impacts (generateComprehensiveJSON simpleApi (exampleRunEnv [])
        (reconcileFileImpacts exampleFileImpacts) (reconcileColumnImpacts exampleColumnImpacts)
        [''nodes/orders.yml''] [numberColumn ''tax''] [])
   \<and> map model_name (asset_impacts.indirect (asset_impacts (generateComprehensiveJSON simpleApi
        (exampleRunEnv ''direct_asset_count,direct_asset_list'')
        (reconcileFileImpacts exampleFileImpacts) (reconcileColumnImpacts exampleColumnImpacts)
        [''nodes/orders.yml''] [numberColumn ''tax''] []))) = [JStr ''B'']
   \<and> map (\<lambda>e. (column_entry.table_name e, column_entry.column_name e))
       (column_impacts.direct (column_impacts (generateComprehensiveJSON simpleApi
        (exampleRunEnv ''direct_asset_count,direct_asset_list'')
        (reconcileFileImpacts exampleFileImpacts) (reconcileColumnImpacts exampleColumnImpacts)
        [''nodes/orders.yml''] [numberColumn ''tax''] []))) = [(JStr ''sales'', JStr ''tax'')]"
proof -
  let ?keys = "''direct_asset_count,direct_asset_list''"
  let ?fi = "reconcileFileImpacts exampleFileImpacts"
  let ?ci = "reconcileColumnImpacts exampleColumnImpacts"
  have o: "configurableKeys (exampleRunEnv ?keys)
     = (allOptions False) \<lparr> showDirectAssetCount := True, showDirectAssetList := True \<rparr>"
    by code_simp
  have m: "summaryOf simpleApi (exampleRunEnv ?keys) ?fi ?ci
       [''nodes/orders.yml''] [numberColumn ''tax''] []
     = ''## Impact Analysis Report'' @ nl @ nl
       @ ''### Changed Files'' @ nl
       @ ''- nodes/orders.yml'' @ nl @ nl
       @ ''### Asset level Impacts'' @ nl
       @ ''- **Total Directly Impacted:** 1'' @ nl @ nl
       @ ''<details>'' @ nl
       @ ''<summary><b>Directly Impacted Assets (1)</b></summary>'' @ nl @ nl
       @ ''- [A](https://dq.example.com/observe/data/r-a/measures)'' @ nl
       @ ''</details>'' @ nl @ nl"
    by code_simp
  have e: "\<And>k. (exampleRunEnv []) \<lparr> dqlabs_configurable_keys := k \<rparr> = exampleRunEnv k"
    by (simp add: exampleRunEnv_def)
  have f: "?fi = [(''nodes/orders.yml'',
         \<lparr> file_impact.direct = [assetA], indirect = [assetB], taskName = JStr ''orders'' \<rparr>)]"
    by code_simp
  have c: "?ci = [(''nodes/orders.yml'',
         \<lparr> column_impact_set.direct = [columnOf ''sales'' ''tax''],
           indirect = [columnOf ''report'' ''tax''],
           taskName = JStr ''orders'', changedColumns = [''tax''] \<rparr>)]"
    by code_simp
  note t = json_mirror_ignores_options [where api = simpleApi and env = "exampleRunEnv []"
      and ka = ?keys and kb = "[]" and fileImpacts = ?fi and columnImpacts = ?ci
      and changedFiles = "[''nodes/orders.yml'']" and ymlAdded = "[numberColumn ''tax'']"
      and ymlRemoved = "[]", unfolded e]
  note u = json_mirror_ignores_options [where api = simpleApi and env = "exampleRunEnv ?keys"
      and fileImpacts = ?fi and columnImpacts = ?ci
      and changedFiles = "[''nodes/orders.yml'']" and ymlAdded = "[numberColumn ''tax'']"
      and ymlRemoved = "[]"]
  have 1: "map model_name (asset_impacts.indirect (asset_impacts (generateComprehensiveJSON simpleApi
        (exampleRunEnv ?keys) ?fi ?ci [''nodes/orders.yml''] [numberColumn ''tax''] []))) = [JStr ''B'']"
    using u [THEN conjunct2, THEN conjunct2, THEN conjunct2, THEN conjunct2, THEN conjunct2,
        THEN conjunct1]
    by (simp add: f assetB_def)
  have 2: "map (\<lambda>e. (column_entry.table_name e, column_entry.column_name e))
       (column_impacts.direct (column_impacts (generateComprehensiveJSON simpleApi
        (exampleRunEnv ?keys) ?fi ?ci [''nodes/orders.yml''] [numberColumn ''tax''] [])))
       = [(JStr ''sales'', JStr ''tax'')]"
    using u [THEN conjunct2, THEN conjunct2, THEN conjunct2, THEN conjunct2, THEN conjunct2,
        THEN conjunct2, THEN conjunct1]
    by (simp add: c columnOf_def)
  from o m t [THEN conjunct1] 1 2 show ?thesis by simp
qed

end
